theory Spec2Isabelle
  imports Complex_Main "HOL-Library.AList" "HOL-Library.Sublist"
begin

section \<open>Python values\<close>

text \<open>
  The endpoints receive request parameters and JSON payloads, which are dynamically
  typed. A value is one of Python's JSON-shaped values. The type \<open>'f\<close> stands for
  Python's \<open>float\<close>: its arithmetic is not interpreted here, the operations on it
  are fields of the environment record below, so that nothing proved depends on
  an algebraic law that IEEE arithmetic lacks.
\<close>

datatype 'f pyval =
    PNone
  | PBool bool
  | PInt int
  | PFloat 'f
  | PStr string
  | PList "'f pyval list"
  | PDict "(string \<times> 'f pyval) list"

type_synonym 'f pydict = "(string \<times> 'f pyval) list"

text \<open>\<open>d.get(k)\<close>: the value stored under \<open>k\<close>, or \<open>None\<close>.\<close>

definition dget :: "'f pydict \<Rightarrow> string \<Rightarrow> 'f pyval" where
  "dget d k = (case map_of d k of None \<Rightarrow> PNone | Some v \<Rightarrow> v)"

text \<open>\<open>d[k] = v\<close>.\<close>

definition dset :: "'f pydict \<Rightarrow> string \<Rightarrow> 'f pyval \<Rightarrow> 'f pydict" where
  "dset d k v = AList.update k v d"

datatype error =
    PermissionError
  | ValidationError string
  | DoesNotExistError
  | DuplicateEntryError
  | TypeError
  | ValueError
  | AttributeError
  | JSONDecodeError

subsection \<open>String methods\<close>

text \<open>
  Strings are taken as ASCII. \<open>str.strip()\<close> removes the characters for which
  \<open>str.isspace\<close> holds from both ends, \<open>str.lower()\<close> maps \<open>A\<close>..\<open>Z\<close> to
  \<open>a\<close>..\<open>z\<close>, and \<open>s in x\<close> is the substring test.
\<close>

definition py_isspace :: "char \<Rightarrow> bool" where
  "py_isspace c = (let n = (of_char c :: nat) in (9 \<le> n \<and> n \<le> 13) \<or> (28 \<le> n \<and> n \<le> 32))"

definition py_strip :: "string \<Rightarrow> string" where
  "py_strip s = rev (dropWhile py_isspace (rev (dropWhile py_isspace s)))"

definition py_lower_char :: "char \<Rightarrow> char" where
  "py_lower_char c =
     (let n = (of_char c :: nat) in if 65 \<le> n \<and> n \<le> 90 then char_of (n + 32) else c)"

definition py_lower :: "string \<Rightarrow> string" where
  "py_lower s = map py_lower_char s"

fun py_in :: "string \<Rightarrow> string \<Rightarrow> bool" where
  "py_in s [] = (s = [])"
| "py_in s (c # cs) = (prefix s (c # cs) \<or> py_in s cs)"

section \<open>Documents of the framework\<close>

text \<open>
  An Invoice Form document as the handlers see it: a Python object whose attributes hold
  whatever was assigned to them. \<open>name\<close> and \<open>docstatus\<close> are managed by the
  framework.
\<close>

record 'f item_row =
  row_name :: "'f pyval"
  item_code :: "'f pyval"
  item_name :: "'f pyval"
  qty :: "'f pyval"
  price :: "'f pyval"
  row_total :: "'f pyval"
  row_customer :: "'f pyval"
  row_commission :: "'f pyval"
  couple_customer :: "'f pyval"
  has_commission_invoice :: "'f pyval"

record 'f commission_row =
  c_item :: "'f pyval"
  c_price :: "'f pyval"
  c_commission :: "'f pyval"
  c_total_commission :: "'f pyval"
  c_taxes :: "'f pyval"
  c_commission_total :: "'f pyval"

record 'f invoice_doc =
  name :: string
  posting_date :: "'f pyval"
  posting_time :: "'f pyval"
  is_draft :: "'f pyval"
  lock_update :: "'f pyval"
  supplier :: "'f pyval"
  supplier_name :: "'f pyval"
  pamper_commission :: "'f pyval"
  grand_total :: "'f pyval"
  total_commissions_and_taxes :: "'f pyval"
  items :: "'f item_row list"
  commissions :: "'f commission_row list"
  docstatus :: int
  remarks :: "'f pyval"
  customer :: "'f pyval"

text \<open>The keyword arguments of one \<open>frappe.get_all\<close> call.\<close>

record 'f query =
  q_doctype :: string
  q_fields :: "string list"
  q_filters :: "'f pyval list list"
  q_or_filters :: "'f pyval list list option"
  q_order_by :: string
  q_start :: int
  q_page_length :: int
  q_ignore_permissions :: "bool option"

section \<open>The host environment\<close>

text \<open>
  Everything the handlers call but do not define is a field of this record: the
  framework's permission oracle (\<open>frappe.has_permission\<close> with no document,
  \<open>doc.has_permission\<close> with one), its query executor (\<open>frappe.get_all\<close>,
  \<open>frappe.db.count\<close>), its conversion helpers (\<open>cint\<close>, \<open>cstr\<close>, \<open>flt\<close>),
  \<open>nowtime\<close>, the naming of a new document, \<open>json.loads\<close>, and the operations of
  Python's \<open>float\<close>. No property of any of them is assumed.
\<close>

record 'f env =
  has_permission :: "string \<Rightarrow> string \<Rightarrow> 'f invoice_doc option \<Rightarrow> bool"
  get_all :: "'f query \<Rightarrow> 'f pydict list"
  db_count :: "string \<Rightarrow> 'f pyval list list \<Rightarrow> int"
  cint :: "'f pyval \<Rightarrow> int"
  cstr :: "'f pyval \<Rightarrow> string"
  flt :: "'f pyval \<Rightarrow> 'f"
  nowtime :: string
  autoname :: "'f invoice_doc list \<Rightarrow> string"
  json_loads :: "string \<Rightarrow> 'f pyval option"
  float_add :: "'f \<Rightarrow> 'f \<Rightarrow> 'f"
  float_mul :: "'f \<Rightarrow> 'f \<Rightarrow> 'f"
  float_div :: "'f \<Rightarrow> 'f \<Rightarrow> 'f"
  float_of_int :: "int \<Rightarrow> 'f"
  float_of_str :: "string \<Rightarrow> 'f option"
  float_is_zero :: "'f \<Rightarrow> bool"

text \<open>Python's truth value of an object, and \<open>a or b\<close>.\<close>

fun truthy :: "'f env \<Rightarrow> 'f pyval \<Rightarrow> bool" where
  "truthy fw PNone = False"
| "truthy fw (PBool b) = b"
| "truthy fw (PInt n) = (n \<noteq> 0)"
| "truthy fw (PFloat x) = (\<not> float_is_zero fw x)"
| "truthy fw (PStr s) = (s \<noteq> [])"
| "truthy fw (PList xs) = (xs \<noteq> [])"
| "truthy fw (PDict d) = (d \<noteq> [])"

definition py_or :: "'f env \<Rightarrow> 'f pyval \<Rightarrow> 'f pyval \<Rightarrow> 'f pyval" where
  "py_or fw a b = (if truthy fw a then a else b)"

text \<open>Python's \<open>float(v)\<close>, which raises on a value that is not a number.\<close>

fun py_float :: "'f env \<Rightarrow> 'f pyval \<Rightarrow> error + 'f" where
  "py_float fw (PFloat x) = Inr x"
| "py_float fw (PInt n) = Inr (float_of_int fw n)"
| "py_float fw (PBool b) = Inr (float_of_int fw (if b then 1 else 0))"
| "py_float fw (PStr s) = (case float_of_str fw s of None \<Rightarrow> Inl ValueError | Some x \<Rightarrow> Inr x)"
| "py_float fw PNone = Inl TypeError"
| "py_float fw (PList xs) = Inl TypeError"
| "py_float fw (PDict d) = Inl TypeError"

section \<open>The invoice list\<close>

record permission =
  can_update :: bool
  can_delete :: bool
  can_submit :: bool
  locked :: bool

record 'f invoice_summary =
  inv_id :: "'f pyval"
  inv_invoiceNumber :: "'f pyval"
  inv_supplierId :: "'f pyval"
  inv_supplierName :: "'f pyval"
  inv_date :: string
  inv_amount :: 'f
  inv_permission :: permission

record 'f invoices_response =
  invoices :: "'f invoice_summary list"
  page :: int
  page_size :: int
  total_count :: int
  has_more :: bool

text \<open>Lines 34 to 44 of \<open>invoice.py\<close>: the filters of the list query.\<close>

definition invoice_filters ::
  "'f env \<Rightarrow> 'f pyval \<Rightarrow> 'f pyval \<Rightarrow> 'f pyval \<Rightarrow> 'f pyval list list" where
  "invoice_filters fw start_date end_date supp =
     (if truthy fw start_date
      then [ [PStr ''posting_date'', PStr ''>='', PStr (cstr fw start_date)] ] else []) @
     (if truthy fw end_date
      then [ [PStr ''posting_date'', PStr ''<='', PStr (cstr fw end_date)] ] else []) @
     (if truthy fw supp
      then [ [PStr ''supplier'', PStr ''='', PStr (cstr fw supp)] ] else [])"

text \<open>Lines 58 to 66: the arguments of the base query.\<close>

definition invoice_query :: "'f pyval list list \<Rightarrow> int \<Rightarrow> int \<Rightarrow> 'f query" where
  "invoice_query filters start pg_size =
     \<lparr> q_doctype = ''Invoice Form'',
       q_fields = [''name'', ''posting_date'', ''supplier'', ''supplier_name'', ''grand_total''],
       q_filters = filters,
       q_or_filters = None,
       q_order_by = ''posting_date desc, creation desc'',
       q_start = start,
       q_page_length = pg_size,
       q_ignore_permissions = Some False \<rparr>"

text \<open>Lines 69 to 74: the in-memory search over the fetched page.\<close>

definition search_rows :: "'f env \<Rightarrow> 'f pyval \<Rightarrow> 'f pydict list \<Rightarrow> 'f pydict list" where
  "search_rows fw search rows =
     (if truthy fw search
      then (let s = py_lower (py_strip (cstr fw search))
            in filter (\<lambda>r. py_in s (py_lower (cstr fw (dget r ''name''))) \<or>
                          py_in s (py_lower (cstr fw (py_or fw (dget r ''supplier_name'') (PStr '''')))))
                 rows)
      else rows)"

text \<open>Lines 80 to 95: the loop that shapes the rows; \<open>float\<close> may raise.\<close>

definition the_permission :: permission where
  "the_permission = \<lparr> can_update = True, can_delete = True, can_submit = True, locked = False \<rparr>"

fun shape_invoices :: "'f env \<Rightarrow> 'f pydict list \<Rightarrow> error + 'f invoice_summary list" where
  "shape_invoices fw [] = Inr []"
| "shape_invoices fw (r # rs) =
     (case py_float fw (py_or fw (dget r ''grand_total'') (PInt 0)) of
        Inl e \<Rightarrow> Inl e
      | Inr amount \<Rightarrow>
          (case shape_invoices fw rs of
             Inl e \<Rightarrow> Inl e
           | Inr out \<Rightarrow>
               Inr (\<lparr> inv_id = dget r ''name'',
                      inv_invoiceNumber = dget r ''name'',
                      inv_supplierId = py_or fw (dget r ''supplier'') (PStr ''''),
                      inv_supplierName = py_or fw (dget r ''supplier_name'') (PStr ''''),
                      inv_date = cstr fw (dget r ''posting_date''),
                      inv_amount = amount,
                      inv_permission = the_permission \<rparr> # out)))"

definition get_invoices ::
  "'f env \<Rightarrow> 'f pyval \<Rightarrow> 'f pyval \<Rightarrow> 'f pyval \<Rightarrow> 'f pyval \<Rightarrow> 'f pyval \<Rightarrow> 'f pyval
     \<Rightarrow> error + 'f invoices_response" where
  "get_invoices fw start_date end_date supp pg pg_size search =
     (if \<not> has_permission fw ''Invoice Form'' ''read'' None then Inl PermissionError
      else
        let pg' = max 1 (cint fw pg);
            pg_size' = max 1 (min 100 (cint fw pg_size));
            start = (pg' - 1) * pg_size';
            filters = invoice_filters fw start_date end_date supp;
            rows = get_all fw (invoice_query filters start pg_size');
            rows' = search_rows fw search rows;
            count = db_count fw ''Invoice Form'' filters
        in case shape_invoices fw rows' of
             Inl e \<Rightarrow> Inl e
           | Inr invs \<Rightarrow>
               Inr \<lparr> invoices = invs,
                     page = pg',
                     page_size = pg_size',
                     total_count = count,
                     has_more = (start + int (length invs) < count) \<rparr>)"

section \<open>The lookup lists\<close>

text \<open>
  The three lookup handlers of \<open>utils.py\<close> return their rows under the key
  \<open>suppliers\<close>, \<open>customers\<close> or \<open>items\<close>; the response record calls it
  \<open>entries\<close>.
\<close>

record 'f lookup_entry =
  entry_id :: "'f pyval"
  entry_name :: "'f pyval"

record 'f item_entry =
  item_entry_id :: "'f pyval"
  item_entry_name :: "'f pyval"
  item_entry_price :: int

record 'e lookup_response =
  entries :: "'e list"
  lk_page :: int
  lk_page_size :: int
  lk_has_more :: bool

text \<open>The f-string \<open>f"%{cstr(search).strip()}%"\<close>.\<close>

definition like_pattern :: "'f env \<Rightarrow> 'f pyval \<Rightarrow> 'f pyval" where
  "like_pattern fw search = PStr (''%'' @ py_strip (cstr fw search) @ ''%'')"

definition lookup_page :: "'f env \<Rightarrow> 'f pyval \<Rightarrow> int" where
  "lookup_page fw pg = max 1 (cint fw pg)"

definition lookup_page_size :: "'f env \<Rightarrow> 'f pyval \<Rightarrow> int" where
  "lookup_page_size fw pg_size = max 1 (min 200 (cint fw pg_size))"

text \<open>\<open>get_supplier\<close>, lines 17 to 42: the query handed to \<open>frappe.get_all\<close>.\<close>

definition supplier_query :: "'f env \<Rightarrow> 'f pyval \<Rightarrow> 'f pyval \<Rightarrow> 'f pyval \<Rightarrow> 'f query" where
  "supplier_query fw pg pg_size search =
     (let pg' = lookup_page fw pg;
          pg_size' = lookup_page_size fw pg_size;
          start = (pg' - 1) * pg_size';
          s = like_pattern fw search
      in \<lparr> q_doctype = ''Supplier'',
           q_fields = [''name as id'', ''supplier_name as name''],
           q_filters = [ [PStr ''is_farmer'', PStr ''='', PInt 1] ],
           q_or_filters =
             (if truthy fw search
              then Some [ [PStr ''Supplier'', PStr ''supplier_name'', PStr ''like'', s],
                         [PStr ''Supplier'', PStr ''name'', PStr ''like'', s] ]
              else None),
           q_order_by = ''supplier_name asc, name asc'',
           q_start = start,
           q_page_length = pg_size' + 1,
           q_ignore_permissions = None \<rparr>)"

definition supplier_entry :: "'f env \<Rightarrow> 'f pydict \<Rightarrow> 'f lookup_entry" where
  "supplier_entry fw r =
     \<lparr> entry_id = py_or fw (dget r ''id'') (dget r ''name''),
       entry_name = py_or fw (py_or fw (dget r ''name'') (dget r ''supplier_name'')) (dget r ''id'') \<rparr>"

definition get_supplier ::
  "'f env \<Rightarrow> 'f pyval \<Rightarrow> 'f pyval \<Rightarrow> 'f pyval \<Rightarrow> error + 'f lookup_entry lookup_response" where
  "get_supplier fw pg pg_size search =
     (if \<not> has_permission fw ''Supplier'' ''read'' None then Inl PermissionError
      else
        let pg' = lookup_page fw pg;
            pg_size' = lookup_page_size fw pg_size;
            rows = get_all fw (supplier_query fw pg pg_size search);
            more = (int (length rows) > pg_size');
            rows' = (if more then take (nat pg_size') rows else rows)
        in Inr \<lparr> entries = map (supplier_entry fw) rows',
                 lk_page = pg',
                 lk_page_size = pg_size',
                 lk_has_more = more \<rparr>)"

text \<open>\<open>get_customer\<close>.\<close>

definition customer_query :: "'f env \<Rightarrow> 'f pyval \<Rightarrow> 'f pyval \<Rightarrow> 'f pyval \<Rightarrow> 'f query" where
  "customer_query fw pg pg_size search =
     (let pg' = lookup_page fw pg;
          pg_size' = lookup_page_size fw pg_size;
          start = (pg' - 1) * pg_size';
          s = like_pattern fw search
      in \<lparr> q_doctype = ''Customer'',
           q_fields = [''name as id'', ''customer_name as name''],
           q_filters = [],
           q_or_filters =
             (if truthy fw search
              then Some [ [PStr ''Customer'', PStr ''customer_name'', PStr ''like'', s],
                         [PStr ''Customer'', PStr ''name'', PStr ''like'', s] ]
              else None),
           q_order_by = ''customer_name asc, name asc'',
           q_start = start,
           q_page_length = pg_size' + 1,
           q_ignore_permissions = None \<rparr>)"

definition customer_entry :: "'f env \<Rightarrow> 'f pydict \<Rightarrow> 'f lookup_entry" where
  "customer_entry fw r =
     \<lparr> entry_id = py_or fw (dget r ''id'') (dget r ''name''),
       entry_name = py_or fw (py_or fw (dget r ''name'') (dget r ''customer_name'')) (dget r ''id'') \<rparr>"

definition get_customer ::
  "'f env \<Rightarrow> 'f pyval \<Rightarrow> 'f pyval \<Rightarrow> 'f pyval \<Rightarrow> error + 'f lookup_entry lookup_response" where
  "get_customer fw pg pg_size search =
     (if \<not> has_permission fw ''Customer'' ''read'' None then Inl PermissionError
      else
        let pg' = lookup_page fw pg;
            pg_size' = lookup_page_size fw pg_size;
            rows = get_all fw (customer_query fw pg pg_size search);
            more = (int (length rows) > pg_size');
            rows' = (if more then take (nat pg_size') rows else rows)
        in Inr \<lparr> entries = map (customer_entry fw) rows',
                 lk_page = pg',
                 lk_page_size = pg_size',
                 lk_has_more = more \<rparr>)"

text \<open>\<open>get_items\<close>.\<close>

definition items_query :: "'f env \<Rightarrow> 'f pyval \<Rightarrow> 'f pyval \<Rightarrow> 'f pyval \<Rightarrow> 'f query" where
  "items_query fw pg pg_size search =
     (let pg' = lookup_page fw pg;
          pg_size' = lookup_page_size fw pg_size;
          start = (pg' - 1) * pg_size';
          s = like_pattern fw search
      in \<lparr> q_doctype = ''Item'',
           q_fields = [''name as id'', ''item_name as name''],
           q_filters = [ [PStr ''disabled'', PStr ''='', PInt 0] ],
           q_or_filters =
             (if truthy fw search
              then Some [ [PStr ''Item'', PStr ''item_name'', PStr ''like'', s],
                         [PStr ''Item'', PStr ''name'', PStr ''like'', s],
                         [PStr ''Item'', PStr ''item_code'', PStr ''like'', s] ]
              else None),
           q_order_by = ''item_name asc, name asc'',
           q_start = start,
           q_page_length = pg_size' + 1,
           q_ignore_permissions = None \<rparr>)"

definition item_entry_of :: "'f env \<Rightarrow> 'f pydict \<Rightarrow> 'f item_entry" where
  "item_entry_of fw r =
     \<lparr> item_entry_id = py_or fw (dget r ''id'') (dget r ''name''),
       item_entry_name = py_or fw (dget r ''name'') (dget r ''id''),
       item_entry_price = 0 \<rparr>"

definition get_items ::
  "'f env \<Rightarrow> 'f pyval \<Rightarrow> 'f pyval \<Rightarrow> 'f pyval \<Rightarrow> error + 'f item_entry lookup_response" where
  "get_items fw pg pg_size search =
     (if \<not> has_permission fw ''Item'' ''read'' None then Inl PermissionError
      else
        let pg' = lookup_page fw pg;
            pg_size' = lookup_page_size fw pg_size;
            rows = get_all fw (items_query fw pg pg_size search);
            more = (int (length rows) > pg_size');
            rows' = (if more then take (nat pg_size') rows else rows)
        in Inr \<lparr> entries = map (item_entry_of fw) rows',
                 lk_page = pg',
                 lk_page_size = pg_size',
                 lk_has_more = more \<rparr>)"

section \<open>The document store\<close>

text \<open>
  Modelled from the spec: the framework's document store and its mutation primitives
  (\<open>get_doc\<close>, \<open>save\<close>, \<open>submit\<close>, \<open>delete_doc\<close>, \<open>insert\<close>), which the
  handlers call and the repository does not define. The store is the table of Invoice
  Form documents. \<open>get_doc\<close> raises when no document has the name, \<open>save\<close>
  replaces the stored document of the same name, \<open>submit\<close> sets
  \<open>docstatus\<close> to 1 and saves, \<open>delete_doc\<close> removes the document, and
  \<open>insert\<close> names the document and adds it, refusing a name already in use.
  A write is visible at once, so \<open>frappe.db.commit()\<close> changes nothing here.
\<close>

type_synonym 'f store = "'f invoice_doc list"

definition get_doc :: "'f store \<Rightarrow> string \<Rightarrow> error + 'f invoice_doc" where
  "get_doc st nm =
     (case find (\<lambda>d. name d = nm) st of None \<Rightarrow> Inl DoesNotExistError | Some d \<Rightarrow> Inr d)"

definition doc_save :: "'f store \<Rightarrow> 'f invoice_doc \<Rightarrow> 'f store" where
  "doc_save st doc = map (\<lambda>d. if name d = name doc then doc else d) st"

definition doc_submit :: "'f store \<Rightarrow> 'f invoice_doc \<Rightarrow> 'f invoice_doc \<times> 'f store" where
  "doc_submit st doc = (let doc' = doc\<lparr>docstatus := 1\<rparr> in (doc', doc_save st doc'))"

definition delete_doc :: "'f store \<Rightarrow> string \<Rightarrow> 'f store" where
  "delete_doc st nm = filter (\<lambda>d. name d \<noteq> nm) st"

definition doc_insert ::
  "'f env \<Rightarrow> 'f store \<Rightarrow> 'f invoice_doc \<Rightarrow> error + ('f invoice_doc \<times> 'f store)" where
  "doc_insert fw st doc =
     (let doc' = doc\<lparr>name := autoname fw st\<rparr>
      in case find (\<lambda>d. name d = name doc') st of
           Some d \<Rightarrow> Inl DuplicateEntryError
         | None \<Rightarrow> Inr (doc', st @ [doc']))"

text \<open>Sequencing of steps that may raise.\<close>

definition bind_err :: "error + 'a \<Rightarrow> ('a \<Rightarrow> error + 'b) \<Rightarrow> error + 'b" where
  "bind_err m k = (case m of Inl e \<Rightarrow> Inl e | Inr x \<Rightarrow> k x)"

section \<open>Invoice details\<close>

record 'f detail_item =
  di_id :: string
  di_name :: string
  di_quantity :: 'f
  di_price :: 'f
  di_total :: 'f
  di_customerId :: string
  di_customerName :: string

record 'f invoice_details =
  det_id :: string
  det_invoiceNumber :: string
  det_supplierId :: string
  det_supplierName :: string
  det_date :: string
  det_amount :: 'f
  det_status :: string
  det_is_locked :: bool
  det_items :: "'f detail_item list"
  det_tax :: 'f
  det_notes :: string
  det_customer :: string
  det_customer_name :: string
  det_permission :: permission

definition status_of :: "int \<Rightarrow> string" where
  "status_of ds =
     (if ds = 0 then ''draft'' else if ds = 1 then ''submitted''
      else if ds = 2 then ''cancelled'' else ''draft'')"

text \<open>Lines 122 to 132 of \<open>invoice.py\<close>.\<close>

fun detail_items :: "'f env \<Rightarrow> 'f item_row list \<Rightarrow> error + 'f detail_item list" where
  "detail_items fw [] = Inr []"
| "detail_items fw (it # its) =
     bind_err (py_float fw (py_or fw (qty it) (PInt 0))) (\<lambda>q.
     bind_err (py_float fw (py_or fw (price it) (PInt 0))) (\<lambda>p.
     bind_err (py_float fw (py_or fw (row_total it) (PInt 0))) (\<lambda>t.
     bind_err (detail_items fw its) (\<lambda>out.
       Inr (\<lparr> di_id = cstr fw (row_name it),
              di_name = cstr fw (py_or fw (item_name it) (item_code it)),
              di_quantity = q,
              di_price = p,
              di_total = t,
              di_customerId = cstr fw (row_customer it),
              di_customerName = cstr fw (row_customer it) \<rparr> # out)))))"

definition get_invoice_details ::
  "'f env \<Rightarrow> 'f store \<Rightarrow> string \<Rightarrow> error + 'f invoice_details" where
  "get_invoice_details fw st nm =
     (if nm = [] then Inl (ValidationError ''Missing invoice name'')
      else
        bind_err (get_doc st nm) (\<lambda>doc.
          if \<not> has_permission fw ''Invoice Form'' ''read'' (Some doc) then Inl PermissionError
          else
            let status = status_of (docstatus doc);
                is_locked = truthy fw (lock_update doc)
            in bind_err (detail_items fw (items doc)) (\<lambda>its.
               bind_err (py_float fw (py_or fw (grand_total doc) (PInt 0))) (\<lambda>amount.
               bind_err (py_float fw (py_or fw (total_commissions_and_taxes doc) (PInt 0))) (\<lambda>tax.
                 Inr \<lparr> det_id = cstr fw (PStr (name doc)),
                       det_invoiceNumber = cstr fw (PStr (name doc)),
                       det_supplierId = cstr fw (supplier doc),
                       det_supplierName = cstr fw (supplier_name doc),
                       det_date = cstr fw (posting_date doc),
                       det_amount = amount,
                       det_status = status,
                       det_is_locked = is_locked,
                       det_items = its,
                       det_tax = tax,
                       det_notes = cstr fw (remarks doc),
                       det_customer = cstr fw (customer doc),
                       det_customer_name = cstr fw (customer doc),
                       det_permission =
                         \<lparr> can_update = True, can_delete = True, can_submit = True,
                           locked = is_locked \<rparr> \<rparr>)))))"

section \<open>Updating, submitting and deleting\<close>

text \<open>
  A handler that writes returns the store it leaves behind together with its result,
  also when it raises.
\<close>

text \<open>Python's \<open>a * b\<close> on payload values; \<open>bool\<close> counts as \<open>int\<close>.\<close>

fun int_of :: "'f pyval \<Rightarrow> int option" where
  "int_of (PInt n) = Some n"
| "int_of (PBool b) = Some (if b then 1 else 0)"
| "int_of v = None"

definition py_mul :: "'f env \<Rightarrow> 'f pyval \<Rightarrow> 'f pyval \<Rightarrow> error + 'f pyval" where
  "py_mul fw a b =
     (case (int_of a, int_of b) of
        (Some m, Some n) \<Rightarrow> Inr (PInt (m * n))
      | (Some m, None) \<Rightarrow>
          (case b of
             PFloat y \<Rightarrow> Inr (PFloat (float_mul fw (float_of_int fw m) y))
           | PStr s \<Rightarrow> Inr (PStr (concat (replicate (nat m) s)))
           | PList xs \<Rightarrow> Inr (PList (concat (replicate (nat m) xs)))
           | _ \<Rightarrow> Inl TypeError)
      | (None, Some n) \<Rightarrow>
          (case a of
             PFloat x \<Rightarrow> Inr (PFloat (float_mul fw x (float_of_int fw n)))
           | PStr s \<Rightarrow> Inr (PStr (concat (replicate (nat n) s)))
           | PList xs \<Rightarrow> Inr (PList (concat (replicate (nat n) xs)))
           | _ \<Rightarrow> Inl TypeError)
      | (None, None) \<Rightarrow>
          (case (a, b) of
             (PFloat x, PFloat y) \<Rightarrow> Inr (PFloat (float_mul fw x y))
           | _ \<Rightarrow> Inl TypeError))"

text \<open>Lines 186 to 192: one row of the replaced items table.\<close>

definition update_row :: "'f env \<Rightarrow> 'f pyval \<Rightarrow> error + 'f item_row" where
  "update_row fw it =
     (case it of
        PDict d \<Rightarrow>
          (let code = py_or fw (dget d ''item_code'') PNone;
               iname = py_or fw (dget d ''item_name'') PNone;
               q = py_or fw (py_or fw (dget d ''qty'') (dget d ''quantity'')) (PInt 0);
               p = py_or fw (dget d ''price'') (PInt 0)
           in bind_err (if truthy fw (dget d ''total'') then Inr (dget d ''total'')
                        else py_mul fw q p) (\<lambda>t.
                Inr \<lparr> row_name = PNone,
                      item_code = code,
                      item_name = iname,
                      qty = q,
                      price = p,
                      row_total = t,
                      row_customer =
                        py_or fw (py_or fw (dget d ''customer'') (dget d ''customerId'')) (PStr []),
                      row_commission = PNone,
                      couple_customer = PNone,
                      has_commission_invoice = PNone \<rparr>))
      | _ \<Rightarrow> Inl AttributeError)"

fun update_rows :: "'f env \<Rightarrow> 'f pyval list \<Rightarrow> error + 'f item_row list" where
  "update_rows fw [] = Inr []"
| "update_rows fw (it # its) =
     bind_err (update_row fw it) (\<lambda>row.
     bind_err (update_rows fw its) (\<lambda>rows. Inr (row # rows)))"

definition update_invoice ::
  "'f env \<Rightarrow> 'f store \<Rightarrow> 'f pydict \<Rightarrow> string \<Rightarrow> 'f pyval \<Rightarrow> 'f store \<times> (error + string)" where
  "update_invoice fw st form_dict nm data =
     (if nm = [] then (st, Inl (ValidationError ''Missing invoice name''))
      else
        case get_doc st nm of
          Inl e \<Rightarrow> (st, Inl e)
        | Inr doc \<Rightarrow>
            if \<not> has_permission fw ''Invoice Form'' ''write'' (Some doc)
            then (st, Inl PermissionError)
            else
              (case py_or fw (py_or fw data (PDict form_dict)) (PDict []) of
                 PDict payload \<Rightarrow>
                   (let doc1 = (if truthy fw (dget payload ''posting_date'')
                                then doc\<lparr>posting_date := dget payload ''posting_date''\<rparr> else doc);
                        doc2 = (if truthy fw (dget payload ''supplier'')
                                then doc1\<lparr>supplier := dget payload ''supplier''\<rparr> else doc1);
                        doc3 = (if truthy fw (dget payload ''supplier_name'')
                                then doc2\<lparr>supplier_name := dget payload ''supplier_name''\<rparr>
                                else doc2)
                    in case (case dget payload ''items'' of
                               PList its \<Rightarrow>
                                 bind_err (update_rows fw its) (\<lambda>rows. Inr (doc3\<lparr>items := rows\<rparr>))
                             | _ \<Rightarrow> Inr doc3) of
                         Inl e \<Rightarrow> (st, Inl e)
                       | Inr doc4 \<Rightarrow> (doc_save st doc4, Inr (cstr fw (PStr (name doc4)))))
               | _ \<Rightarrow> (st, Inl AttributeError)))"

record submit_response =
  sub_name :: string
  sub_docstatus :: int

definition submit_invoice ::
  "'f env \<Rightarrow> 'f store \<Rightarrow> string \<Rightarrow> 'f store \<times> (error + submit_response)" where
  "submit_invoice fw st nm =
     (if nm = [] then (st, Inl (ValidationError ''Missing invoice name''))
      else
        case get_doc st nm of
          Inl e \<Rightarrow> (st, Inl e)
        | Inr doc \<Rightarrow>
            if \<not> has_permission fw ''Invoice Form'' ''submit'' (Some doc)
            then (st, Inl PermissionError)
            else if docstatus doc \<noteq> 0
            then (st, Inl (ValidationError ''Only draft invoices can be submitted''))
            else
              (case doc_submit st doc of
                 (doc', st') \<Rightarrow>
                   (st', Inr \<lparr> sub_name = cstr fw (PStr (name doc')),
                               sub_docstatus = docstatus doc' \<rparr>)))"

text \<open>The response \<open>{"deleted": True}\<close> is its one value.\<close>

definition delete_invoice ::
  "'f env \<Rightarrow> 'f store \<Rightarrow> string \<Rightarrow> 'f store \<times> (error + bool)" where
  "delete_invoice fw st nm =
     (if nm = [] then (st, Inl (ValidationError ''Missing invoice name''))
      else
        case get_doc st nm of
          Inl e \<Rightarrow> (st, Inl e)
        | Inr doc \<Rightarrow>
            if \<not> has_permission fw ''Invoice Form'' ''delete'' (Some doc)
            then (st, Inl PermissionError)
            else (delete_doc st nm, Inr True))"

section \<open>Creating an invoice\<close>

record 'f created_item =
  ci_item_code :: "'f pyval"
  ci_item_name :: "'f pyval"
  ci_qty :: "'f pyval"
  ci_price :: "'f pyval"
  ci_total :: "'f pyval"
  ci_commission :: "'f pyval"
  ci_customer :: "'f pyval"
  ci_couple_customer :: "'f pyval"
  ci_has_commission_invoice :: "'f pyval"

record 'f create_response =
  cr_name :: string
  cr_posting_date :: "'f pyval"
  cr_supplier :: "'f pyval"
  cr_supplier_name :: "'f pyval"
  cr_grand_total :: "'f pyval"
  cr_total_commissions_and_taxes :: "'f pyval"
  cr_pamper_commission :: "'f pyval"
  cr_doctype :: string
  cr_items :: "'f created_item list"
  cr_commissions :: "'f commission_row list"

text \<open>
  Lines 249 to 252 of \<open>invoice.py\<close>: the payload is the entry \<open>data\<close> of the
  request's form, parsed when it is a string; the \<open>data.get\<close> calls that follow
  need it to be a dictionary.
\<close>

definition request_data :: "'f env \<Rightarrow> 'f pydict \<Rightarrow> error + 'f pydict" where
  "request_data fw form_dict =
     bind_err (case dget form_dict ''data'' of
                 PStr s \<Rightarrow>
                   (case json_loads fw (if s = [] then ''{}'' else s) of
                      None \<Rightarrow> Inl JSONDecodeError
                    | Some v \<Rightarrow> Inr v)
               | v \<Rightarrow> Inr v) (\<lambda>data.
       case py_or fw data (PDict []) of
         PDict d \<Rightarrow> Inr d
       | _ \<Rightarrow> Inl AttributeError)"

text \<open>Lines 263 to 265: the rates, with their defaults.\<close>

definition commission_rate_of :: "'f env \<Rightarrow> 'f pydict \<Rightarrow> 'f" where
  "commission_rate_of fw d = flt fw (py_or fw (dget d ''commission_rate'') (PInt 5))"

definition tax_rate_of :: "'f env \<Rightarrow> 'f pydict \<Rightarrow> 'f" where
  "tax_rate_of fw d = flt fw (py_or fw (dget d ''tax_rate'') (PInt 15))"

definition pamper_commission_of :: "'f env \<Rightarrow> 'f pydict \<Rightarrow> 'f" where
  "pamper_commission_of fw d = flt fw (py_or fw (dget d ''pamper_commission'') (PInt 0))"

text \<open>What \<open>for it in items\<close> iterates over.\<close>

fun py_iter :: "'f pyval \<Rightarrow> error + 'f pyval list" where
  "py_iter (PList xs) = Inr xs"
| "py_iter (PStr s) = Inr (map (\<lambda>c. PStr [c]) s)"
| "py_iter (PDict d) = Inr (map (\<lambda>kv. PStr (fst kv)) d)"
| "py_iter v = Inl TypeError"

text \<open>Lines 273 and 274: quantity and price of one item.\<close>

definition item_qty :: "'f env \<Rightarrow> 'f pydict \<Rightarrow> 'f" where
  "item_qty fw d = flt fw (py_or fw (py_or fw (dget d ''qty'') (dget d ''quantity'')) (PInt 0))"

definition item_price :: "'f env \<Rightarrow> 'f pydict \<Rightarrow> 'f" where
  "item_price fw d = flt fw (py_or fw (dget d ''price'') (PInt 0))"

text \<open>
  Lines 271 to 279: the loop that computes the totals. It writes \<open>item_code\<close> and
  \<open>total\<close> back into each item, so it returns the items as it leaves them together
  with the sum; the sum so far is its first argument.
\<close>

fun compute_totals :: "'f env \<Rightarrow> 'f \<Rightarrow> 'f pyval list \<Rightarrow> error + ('f pyval list \<times> 'f)" where
  "compute_totals fw acc [] = Inr ([], acc)"
| "compute_totals fw acc (it # its) =
     (case it of
        PDict d \<Rightarrow>
          (let q = item_qty fw d;
               p = item_price fw d;
               d1 = (if \<not> truthy fw (dget d ''item_code'') \<and> truthy fw (dget d ''item_name'')
                     then dset d ''item_code'' (dget d ''item_name'') else d);
               t = flt fw (dget d1 ''total'');
               line_total = (if float_is_zero fw t then float_mul fw q p else t);
               d2 = dset d1 ''total'' (PFloat line_total)
           in bind_err (compute_totals fw (float_add fw acc line_total) its) (\<lambda>(its', gtotal).
                Inr (PDict d2 # its', gtotal)))
      | _ \<Rightarrow> Inl AttributeError)"

text \<open>Lines 302 to 310: one row of the items table of the new document.\<close>

definition new_row :: "'f env \<Rightarrow> 'f pyval \<Rightarrow> error + 'f item_row" where
  "new_row fw it =
     (case it of
        PDict d \<Rightarrow>
          Inr \<lparr> row_name = PNone,
                item_code = dget d ''item_code'',
                item_name = py_or fw (dget d ''item_name'') (dget d ''item_code''),
                qty = PFloat (item_qty fw d),
                price = PFloat (item_price fw d),
                row_total = PFloat (flt fw (py_or fw (dget d ''total'') (PInt 0))),
                row_customer = py_or fw (dget d ''customer'') (PStr []),
                row_commission = PNone,
                couple_customer = PNone,
                has_commission_invoice = PNone \<rparr>
      | _ \<Rightarrow> Inl AttributeError)"

fun new_rows :: "'f env \<Rightarrow> 'f pyval list \<Rightarrow> error + 'f item_row list" where
  "new_rows fw [] = Inr []"
| "new_rows fw (it # its) =
     bind_err (new_row fw it) (\<lambda>row.
     bind_err (new_rows fw its) (\<lambda>rows. Inr (row # rows)))"

definition created_item_of :: "'f item_row \<Rightarrow> 'f created_item" where
  "created_item_of r =
     \<lparr> ci_item_code = item_code r,
       ci_item_name = item_name r,
       ci_qty = qty r,
       ci_price = price r,
       ci_total = row_total r,
       ci_commission = row_commission r,
       ci_customer = row_customer r,
       ci_couple_customer = couple_customer r,
       ci_has_commission_invoice = has_commission_invoice r \<rparr>"

text \<open>
  The body of \<open>create_invoice_form\<close> from line 255 on. The literals \<open>0.0\<close> and
  \<open>100.0\<close> are the floats of 0 and of 100. A new document is a draft
  (\<open>docstatus\<close> 0) with no remarks and no customer.
\<close>

definition create_from_data ::
  "'f env \<Rightarrow> 'f store \<Rightarrow> 'f pydict \<Rightarrow> 'f store \<times> (error + 'f create_response)" where
  "create_from_data fw st d =
     (let pdate = dget d ''posting_date'';
          supp = dget d ''supplier''
      in if \<not> truthy fw pdate \<or> \<not> truthy fw supp
         then (st, Inl (ValidationError ''Missing required fields: posting_date, supplier''))
         else
           let sname = py_or fw (dget d ''supplier_name'') (PStr []);
               its = py_or fw (dget d ''items'') (PList []);
               commission_rate = commission_rate_of fw d;
               tax_rate = tax_rate_of fw d;
               pamper = pamper_commission_of fw d
           in if \<not> truthy fw its
              then (st, Inl (ValidationError ''At least one item is required''))
              else
                (case bind_err (py_iter its) (compute_totals fw (float_of_int fw 0)) of
                   Inl e \<Rightarrow> (st, Inl e)
                 | Inr (its', gtotal) \<Rightarrow>
                     let total_commission =
                           float_div fw (float_mul fw gtotal commission_rate) (float_of_int fw 100);
                         taxes_on_commission =
                           float_div fw (float_mul fw total_commission tax_rate) (float_of_int fw 100);
                         total_ct = float_add fw total_commission taxes_on_commission
                     in (case new_rows fw its' of
                           Inl e \<Rightarrow> (st, Inl e)
                         | Inr rows \<Rightarrow>
                             (case doc_insert fw st
                                     \<lparr> name = [],
                                       posting_date = pdate,
                                       posting_time = PStr (nowtime fw),
                                       is_draft = PInt 1,
                                       lock_update = PInt 1,
                                       supplier = supp,
                                       supplier_name = sname,
                                       pamper_commission = PFloat pamper,
                                       grand_total = PFloat gtotal,
                                       total_commissions_and_taxes = PFloat total_ct,
                                       items = rows,
                                       commissions = [],
                                       docstatus = 0,
                                       remarks = PNone,
                                       customer = PNone \<rparr> of
                                Inl e \<Rightarrow> (st, Inl e)
                              | Inr (doc, st') \<Rightarrow>
                                  (st', Inr \<lparr> cr_name = name doc,
                                              cr_posting_date = posting_date doc,
                                              cr_supplier = supplier doc,
                                              cr_supplier_name = supplier_name doc,
                                              cr_grand_total = grand_total doc,
                                              cr_total_commissions_and_taxes =
                                                total_commissions_and_taxes doc,
                                              cr_pamper_commission = pamper_commission doc,
                                              cr_doctype = ''Invoice Form'',
                                              cr_items = map created_item_of (items doc),
                                              cr_commissions = commissions doc \<rparr>)))))"

definition create_invoice_form ::
  "'f env \<Rightarrow> 'f store \<Rightarrow> 'f pydict \<Rightarrow> 'f store \<times> (error + 'f create_response)" where
  "create_invoice_form fw st form_dict =
     (case request_data fw form_dict of
        Inl e \<Rightarrow> (st, Inl e)
      | Inr d \<Rightarrow> create_from_data fw st d)"

section \<open>Statements of the specification\<close>

text \<open>
  Lines 273 to 277: the line total the loop adds for one item, as a function of the
  item as it arrives.
\<close>

definition line_total :: "'f env \<Rightarrow> 'f pydict \<Rightarrow> 'f" where
  "line_total fw d =
     (let t = flt fw (dget d ''total'')
      in if float_is_zero fw t then float_mul fw (item_qty fw d) (item_price fw d) else t)"

text \<open>
  The line total in the words of the specification: the total the item provides, or
  quantity times price when the item provides none.
\<close>

definition spec_line_total :: "'f env \<Rightarrow> 'f pydict \<Rightarrow> 'f" where
  "spec_line_total fw d =
     (if map_of d ''total'' = None then float_mul fw (item_qty fw d) (item_price fw d)
      else flt fw (dget d ''total''))"

text \<open>
  The rates in the words of the specification: the rate the payload gives, 5 (for the
  commission) or 15 (for the tax) when it gives none.
\<close>

definition spec_commission_rate :: "'f env \<Rightarrow> 'f pydict \<Rightarrow> 'f" where
  "spec_commission_rate fw d =
     (if map_of d ''commission_rate'' = None then flt fw (PInt 5)
      else flt fw (dget d ''commission_rate''))"

definition spec_tax_rate :: "'f env \<Rightarrow> 'f pydict \<Rightarrow> 'f" where
  "spec_tax_rate fw d =
     (if map_of d ''tax_rate'' = None then flt fw (PInt 15) else flt fw (dget d ''tax_rate''))"

text \<open>The sum the loop forms, from \<open>0.0\<close>, in the order of the list.\<close>

definition float_sum :: "'f env \<Rightarrow> 'f list \<Rightarrow> 'f" where
  "float_sum fw xs = foldl (float_add fw) (float_of_int fw 0) xs"

text \<open>Lines 281 to 283: the percentage formula.\<close>

definition commissions_and_taxes :: "'f env \<Rightarrow> 'f \<Rightarrow> 'f \<Rightarrow> 'f \<Rightarrow> 'f" where
  "commissions_and_taxes fw g commission_rate tax_rate =
     float_add fw
       (float_div fw (float_mul fw g commission_rate) (float_of_int fw 100))
       (float_div fw
          (float_mul fw (float_div fw (float_mul fw g commission_rate) (float_of_int fw 100)) tax_rate)
          (float_of_int fw 100))"

section \<open>A concrete environment\<close>

text \<open>
  An environment on which the handlers can be evaluated. Floats are rationals, which
  is exact on the small numbers used. The conversion helpers behave as the framework's
  do on \<open>None\<close>, booleans, integers, floats and, for \<open>cstr\<close>, strings;
  \<open>flt\<close> also reads a string of decimal digits as its number. No other value is
  passed to them below. The executor pages through fixed tables.
\<close>

definition demo_invoice_rows :: "rat pydict list" where
  "demo_invoice_rows =
     [ [(''name'', PStr ''INV-1''), (''posting_date'', PStr ''2025-08-13''),
       (''supplier'', PStr ''S1''), (''supplier_name'', PStr ''alpha''),
       (''grand_total'', PFloat 10)],
      [(''name'', PStr ''INV-2''), (''posting_date'', PStr ''2025-08-12''),
       (''supplier'', PStr ''S2''), (''supplier_name'', PStr ''beta''),
       (''grand_total'', PFloat 20)],
      [(''name'', PStr ''INV-3''), (''posting_date'', PStr ''2025-08-11''),
       (''supplier'', PStr ''S3''), (''supplier_name'', PStr ''gamma''),
       (''grand_total'', PNone)] ]"

definition demo_lookup_rows :: "rat pydict list" where
  "demo_lookup_rows =
     [ [(''id'', PStr ''A''), (''name'', PStr ''first'')],
      [(''id'', PStr ''B''), (''name'', PStr ''second'')],
      [(''id'', PStr ''C''), (''name'', PStr ''third'')] ]"

definition demo_cint :: "rat pyval \<Rightarrow> int" where
  "demo_cint v =
     (case v of
        PInt n \<Rightarrow> n
      | PBool b \<Rightarrow> (if b then 1 else 0)
      | PFloat x \<Rightarrow> (if x < 0 then - \<lfloor>- x\<rfloor> else \<lfloor>x\<rfloor>)
      | _ \<Rightarrow> 0)"

fun digits_value :: "nat \<Rightarrow> string \<Rightarrow> nat option" where
  "digits_value acc [] = Some acc"
| "digits_value acc (c # cs) =
     (let n = (of_char c :: nat)
      in if 48 \<le> n \<and> n \<le> 57 then digits_value (10 * acc + (n - 48)) cs else None)"

definition demo_flt :: "rat pyval \<Rightarrow> rat" where
  "demo_flt v =
     (case v of
        PInt n \<Rightarrow> of_int n
      | PBool b \<Rightarrow> (if b then 1 else 0)
      | PFloat x \<Rightarrow> x
      | PStr s \<Rightarrow>
          (if s = [] then 0
           else case digits_value 0 s of Some n \<Rightarrow> of_nat n | None \<Rightarrow> 0)
      | _ \<Rightarrow> 0)"

definition demo_cstr :: "rat pyval \<Rightarrow> string" where
  "demo_cstr v = (case v of PStr s \<Rightarrow> s | _ \<Rightarrow> [])"

definition demo_get_all :: "rat query \<Rightarrow> rat pydict list" where
  "demo_get_all q =
     take (nat (q_page_length q))
       (drop (nat (q_start q))
          (if q_doctype q = ''Invoice Form'' then demo_invoice_rows else demo_lookup_rows))"

definition demo_env :: "rat env" where
  "demo_env =
     \<lparr> has_permission = (\<lambda>doctype ptype doc. True),
       get_all = demo_get_all,
       db_count = (\<lambda>doctype filters. int (length demo_invoice_rows)),
       cint = demo_cint,
       cstr = demo_cstr,
       flt = demo_flt,
       nowtime = ''12:00:00'',
       autoname = (\<lambda>st. ''INV-NEW-'' @ replicate (length st) (CHR ''x'')),
       json_loads = (\<lambda>s. if s = ''{}'' then Some (PDict []) else None),
       float_add = (+),
       float_mul = (*),
       float_div = (/),
       float_of_int = of_int,
       float_of_str = (\<lambda>s. None),
       float_is_zero = (\<lambda>x. x = 0) \<rparr>"

text \<open>The same environment with a permission oracle that denies everything.\<close>

definition deny_env :: "rat env" where
  "deny_env = demo_env\<lparr> has_permission := (\<lambda>doctype ptype doc. False) \<rparr>"

definition demo_doc :: "string \<Rightarrow> int \<Rightarrow> rat invoice_doc" where
  "demo_doc nm ds =
     \<lparr> name = nm,
       posting_date = PStr ''2025-08-13'',
       posting_time = PStr ''09:30:00'',
       is_draft = PInt 1,
       lock_update = PInt 0,
       supplier = PStr ''S1'',
       supplier_name = PStr ''alpha'',
       pamper_commission = PFloat 0,
       grand_total = PFloat 10,
       total_commissions_and_taxes = PFloat 0,
       items = [],
       commissions = [],
       docstatus = ds,
       remarks = PNone,
       customer = PNone \<rparr>"

definition demo_store :: "rat store" where
  "demo_store = [demo_doc ''INV-1'' 0, demo_doc ''INV-2'' 1]"

text \<open>An item that gives a quantity, a price and a total of 0.\<close>

definition zero_total_item :: "rat pydict" where
  "zero_total_item = [(''item_code'', PStr ''tomato''), (''qty'', PInt 2), (''price'', PInt 3),
                      (''total'', PInt 0)]"


text \<open>A payload with two items, one with a total and one without, and both rates given.\<close>

definition demo_items :: "rat pydict list" where
  "demo_items =
     [ [(''item_name'', PStr ''tomato''), (''qty'', PInt 2), (''price'', PInt 3),
       (''total'', PInt 7)],
      [(''item_code'', PStr ''onion''), (''quantity'', PInt 4), (''price'', PInt 5)] ]"

definition demo_data :: "rat pydict" where
  "demo_data =
     [(''posting_date'', PStr ''2025-08-13''), (''supplier'', PStr ''S1''),
      (''items'', PList (map PDict demo_items)), (''commission_rate'', PInt 10),
      (''tax_rate'', PInt 20)]"

definition demo_form :: "rat pydict" where
  "demo_form = [(''data'', PDict demo_data)]"

text \<open>
  Payloads whose totals and charges are whole or half numbers, which binary floats hold
  exactly: two items, 100 as given and 20 times 15, so a total of 400; with the rates 10
  and 20, with no rates, with a commission rate of 0 and a tax rate of 0.0, and with both
  rates the string \<open>"0"\<close>.
\<close>

definition round_items :: "rat pydict list" where
  "round_items =
     [ [(''item_name'', PStr ''tomato''), (''qty'', PInt 2), (''price'', PInt 3),
       (''total'', PInt 100)],
      [(''item_code'', PStr ''onion''), (''quantity'', PInt 20), (''price'', PInt 15)] ]"

definition no_rates_data :: "rat pydict" where
  "no_rates_data =
     [(''posting_date'', PStr ''2025-08-13''), (''supplier'', PStr ''S1''),
      (''items'', PList (map PDict round_items))]"

definition given_rates_data :: "rat pydict" where
  "given_rates_data = no_rates_data @ [(''commission_rate'', PInt 10), (''tax_rate'', PInt 20)]"

definition zero_rates_data :: "rat pydict" where
  "zero_rates_data = no_rates_data @ [(''commission_rate'', PInt 0), (''tax_rate'', PFloat 0)]"

definition string_zero_data :: "rat pydict" where
  "string_zero_data =
     no_rates_data @ [(''commission_rate'', PStr ''0''), (''tax_rate'', PStr ''0'')]"

definition form_of :: "rat pydict \<Rightarrow> rat pydict" where
  "form_of d = [(''data'', PDict d)]"

text \<open>The data of the payload with the zero total; it names no rate.\<close>

definition zero_total_data :: "rat pydict" where
  "zero_total_data =
     [(''posting_date'', PStr ''2025-08-13''), (''supplier'', PStr ''S1''),
      (''items'', PList [PDict zero_total_item])]"

definition zero_total_form :: "rat pydict" where
  "zero_total_form = [(''data'', PDict zero_total_data)]"

section \<open>Facts about the model\<close>

lemma bind_err_Inr_iff:
  "bind_err m k = Inr y \<longleftrightarrow> (\<exists>x. m = Inr x \<and> k x = Inr y)"
  by (cases m) (simp_all add: bind_err_def)

lemma dget_dset: "dget (dset d k v) k' = (if k' = k then v else dget d k')"
  by (simp add: dget_def dset_def update_conv')

lemma get_doc_Inr:
  "get_doc st nm = Inr doc \<Longrightarrow> name doc = nm \<and> doc \<in> set st"
  by (auto simp: get_doc_def find_Some_iff split: option.splits)

lemma get_doc_save:
  "get_doc st nm = Inr doc \<Longrightarrow> name doc' = nm \<Longrightarrow> get_doc (doc_save st doc') nm = Inr doc'"
  by (induction st) (auto simp: get_doc_def doc_save_def split: option.splits if_splits)

text \<open>What a response of \<open>get_invoices\<close> is made of.\<close>

lemma get_invoices_Inr:
  assumes "get_invoices fw sd ed sp pg ps search = Inr r"
  shows "has_permission fw ''Invoice Form'' ''read'' None"
    and "page r = max 1 (cint fw pg)"
    and "page_size r = max 1 (min 100 (cint fw ps))"
    and "shape_invoices fw
           (search_rows fw search
              (get_all fw (invoice_query (invoice_filters fw sd ed sp)
                 ((max 1 (cint fw pg) - 1) * max 1 (min 100 (cint fw ps)))
                 (max 1 (min 100 (cint fw ps)))))) = Inr (invoices r)"
    and "total_count r = db_count fw ''Invoice Form'' (invoice_filters fw sd ed sp)"
    and "has_more r \<longleftrightarrow>
           (max 1 (cint fw pg) - 1) * max 1 (min 100 (cint fw ps)) + int (length (invoices r))
             < total_count r"
  using assms
  by (auto simp: get_invoices_def Let_def split: if_splits sum.splits)

lemma shape_invoices_length:
  "shape_invoices fw rows = Inr invs \<Longrightarrow> length invs = length rows"
  by (induction rows arbitrary: invs) (auto split: sum.splits)

lemma shape_invoices_permission:
  "shape_invoices fw rows = Inr invs \<Longrightarrow> \<forall>inv \<in> set invs. inv_permission inv = the_permission"
proof (induction rows arbitrary: invs)
  case Nil
  then show ?case by simp
next
  case (Cons r rs)
  from Cons.prems obtain out where
    "shape_invoices fw rs = Inr out" and "inv_permission (hd invs) = the_permission"
    and "tl invs = out" and "invs \<noteq> []"
    by (auto split: sum.splits)
  with Cons.IH show ?case by (cases invs) auto
qed

lemma lookup_Inr:
  "get_supplier fw pg ps search = Inr r \<Longrightarrow>
     lk_page r = lookup_page fw pg \<and> lk_page_size r = lookup_page_size fw ps"
  "get_customer fw pg ps search = Inr r \<Longrightarrow>
     lk_page r = lookup_page fw pg \<and> lk_page_size r = lookup_page_size fw ps"
  "get_items fw pg ps search = Inr r' \<Longrightarrow>
     lk_page r' = lookup_page fw pg \<and> lk_page_size r' = lookup_page_size fw ps"
  by (auto simp: get_supplier_def get_customer_def get_items_def Let_def split: if_splits)

lemma lookup_take:
  "(if int (length rows) > n then take (nat n) rows else rows) = take (nat n) rows"
  by simp

text \<open>The concrete environments.\<close>

lemma demo_perm: "has_permission demo_env doctype ptype doc"
  by (simp add: demo_env_def)

lemma deny_all: "\<not> has_permission deny_env doctype ptype doc"
  by (simp add: deny_env_def)

lemma demo_cint_PInt: "cint demo_env (PInt n) = n"
  by (simp add: demo_env_def demo_cint_def)

lemma demo_get_doc:
  "get_doc demo_store ''INV-1'' = Inr (demo_doc ''INV-1'' 0)"
  "get_doc demo_store ''INV-2'' = Inr (demo_doc ''INV-2'' 1)"
  by (simp_all add: get_doc_def demo_store_def demo_doc_def)

lemma demo_list_returns:
  "\<exists>r. get_invoices demo_env PNone PNone PNone (PInt 0) (PInt 500) PNone = Inr r \<and>
       length (invoices r) = 3"
  by (simp add: get_invoices_def demo_env_def demo_cint_def invoice_filters_def invoice_query_def
        demo_get_all_def demo_invoice_rows_def search_rows_def dget_def py_or_def)

lemma demo_lookup_fetch:
  "get_all demo_env (supplier_query demo_env (PInt 1) (PInt 2) PNone) = demo_lookup_rows"
  "get_all demo_env (customer_query demo_env (PInt 1) (PInt 2) PNone) = demo_lookup_rows"
  "get_all demo_env (items_query demo_env (PInt 1) (PInt 2) PNone) = demo_lookup_rows"
  by (simp_all add: supplier_query_def customer_query_def items_query_def lookup_page_def
        lookup_page_size_def demo_env_def demo_cint_def demo_get_all_def demo_lookup_rows_def
        like_pattern_def)

section \<open>Pagination\<close>




section \<open>The lookup lists fetch one row more\<close>

text \<open>
  Claim C7. When reading is permitted, each of \<open>get_supplier\<close>, \<open>get_customer\<close>
  and \<open>get_items\<close> hands the executor a query whose page length is its page size
  plus one, returns the first page-size rows the executor gave (shaped), so at most
  page-size rows, and sets \<open>has_more\<close> exactly when the executor gave more than
  page-size rows.
\<close>

theorem lookup_has_more:
  "(has_permission fw ''Supplier'' ''read'' None \<longrightarrow>
      (\<exists>r. get_supplier fw pg ps search = Inr r \<and>
           q_page_length (supplier_query fw pg ps search) = lk_page_size r + 1 \<and>
           entries r = map (supplier_entry fw)
                         (take (nat (lk_page_size r))
                            (get_all fw (supplier_query fw pg ps search))) \<and>
           int (length (entries r)) \<le> lk_page_size r \<and>
           (lk_has_more r \<longleftrightarrow>
              lk_page_size r < int (length (get_all fw (supplier_query fw pg ps search)))))) \<and>
   (has_permission fw ''Customer'' ''read'' None \<longrightarrow>
      (\<exists>r. get_customer fw pg ps search = Inr r \<and>
           q_page_length (customer_query fw pg ps search) = lk_page_size r + 1 \<and>
           entries r = map (customer_entry fw)
                         (take (nat (lk_page_size r))
                            (get_all fw (customer_query fw pg ps search))) \<and>
           int (length (entries r)) \<le> lk_page_size r \<and>
           (lk_has_more r \<longleftrightarrow>
              lk_page_size r < int (length (get_all fw (customer_query fw pg ps search)))))) \<and>
   (has_permission fw ''Item'' ''read'' None \<longrightarrow>
      (\<exists>r. get_items fw pg ps search = Inr r \<and>
           q_page_length (items_query fw pg ps search) = lk_page_size r + 1 \<and>
           entries r = map (item_entry_of fw)
                         (take (nat (lk_page_size r))
                            (get_all fw (items_query fw pg ps search))) \<and>
           int (length (entries r)) \<le> lk_page_size r \<and>
           (lk_has_more r \<longleftrightarrow>
              lk_page_size r < int (length (get_all fw (items_query fw pg ps search))))))"
proof -
  have "1 \<le> lookup_page_size fw ps" by (simp add: lookup_page_size_def)
  then have len: "int (length (take (nat (lookup_page_size fw ps)) rows)) \<le> lookup_page_size fw ps"
    for rows :: "'a pydict list"
    by simp
  show ?thesis
  proof (intro conjI impI)
    assume "has_permission fw ''Supplier'' ''read'' None"
    then show "\<exists>r. get_supplier fw pg ps search = Inr r \<and>
           q_page_length (supplier_query fw pg ps search) = lk_page_size r + 1 \<and>
           entries r = map (supplier_entry fw)
                         (take (nat (lk_page_size r))
                            (get_all fw (supplier_query fw pg ps search))) \<and>
           int (length (entries r)) \<le> lk_page_size r \<and>
           (lk_has_more r \<longleftrightarrow>
              lk_page_size r < int (length (get_all fw (supplier_query fw pg ps search))))"
      using len by (simp add: get_supplier_def Let_def lookup_take supplier_query_def)
  next
    assume "has_permission fw ''Customer'' ''read'' None"
    then show "\<exists>r. get_customer fw pg ps search = Inr r \<and>
           q_page_length (customer_query fw pg ps search) = lk_page_size r + 1 \<and>
           entries r = map (customer_entry fw)
                         (take (nat (lk_page_size r))
                            (get_all fw (customer_query fw pg ps search))) \<and>
           int (length (entries r)) \<le> lk_page_size r \<and>
           (lk_has_more r \<longleftrightarrow>
              lk_page_size r < int (length (get_all fw (customer_query fw pg ps search))))"
      using len by (simp add: get_customer_def Let_def lookup_take customer_query_def)
  next
    assume "has_permission fw ''Item'' ''read'' None"
    then show "\<exists>r. get_items fw pg ps search = Inr r \<and>
           q_page_length (items_query fw pg ps search) = lk_page_size r + 1 \<and>
           entries r = map (item_entry_of fw)
                         (take (nat (lk_page_size r))
                            (get_all fw (items_query fw pg ps search))) \<and>
           int (length (entries r)) \<le> lk_page_size r \<and>
           (lk_has_more r \<longleftrightarrow>
              lk_page_size r < int (length (get_all fw (items_query fw pg ps search))))"
      using len by (simp add: get_items_def Let_def lookup_take items_query_def)
  qed
qed

text \<open>
  With a page size of 2 over a table of three rows, each handler asks for 3 rows,
  gets 3, returns 2 and reports more.
\<close>

theorem lookup_has_more_witness:
  "\<exists>r1 r2 r3.
     get_supplier demo_env (PInt 1) (PInt 2) PNone = Inr r1 \<and>
     q_page_length (supplier_query demo_env (PInt 1) (PInt 2) PNone) = 3 \<and>
     length (get_all demo_env (supplier_query demo_env (PInt 1) (PInt 2) PNone)) = 3 \<and>
     length (entries r1) = 2 \<and> lk_has_more r1 \<and>
     get_customer demo_env (PInt 1) (PInt 2) PNone = Inr r2 \<and>
     q_page_length (customer_query demo_env (PInt 1) (PInt 2) PNone) = 3 \<and>
     length (entries r2) = 2 \<and> lk_has_more r2 \<and>
     get_items demo_env (PInt 1) (PInt 2) PNone = Inr r3 \<and>
     q_page_length (items_query demo_env (PInt 1) (PInt 2) PNone) = 3 \<and>
     length (entries r3) = 2 \<and> lk_has_more r3"
proof -
  have size: "lookup_page_size demo_env (PInt 2) = 2"
    by (simp add: lookup_page_size_def demo_cint_PInt)
  have rows: "length demo_lookup_rows = 3"
    by (simp add: demo_lookup_rows_def)
  from lookup_has_more [of demo_env "PInt 1" "PInt 2" PNone] demo_perm
  obtain r1 r2 r3 where
    r1: "get_supplier demo_env (PInt 1) (PInt 2) PNone = Inr r1"
      "q_page_length (supplier_query demo_env (PInt 1) (PInt 2) PNone) = lk_page_size r1 + 1"
      "entries r1 = map (supplier_entry demo_env) (take (nat (lk_page_size r1)) demo_lookup_rows)"
      "lk_has_more r1 \<longleftrightarrow> lk_page_size r1 < int (length demo_lookup_rows)" and
    r2: "get_customer demo_env (PInt 1) (PInt 2) PNone = Inr r2"
      "q_page_length (customer_query demo_env (PInt 1) (PInt 2) PNone) = lk_page_size r2 + 1"
      "entries r2 = map (customer_entry demo_env) (take (nat (lk_page_size r2)) demo_lookup_rows)"
      "lk_has_more r2 \<longleftrightarrow> lk_page_size r2 < int (length demo_lookup_rows)" and
    r3: "get_items demo_env (PInt 1) (PInt 2) PNone = Inr r3"
      "q_page_length (items_query demo_env (PInt 1) (PInt 2) PNone) = lk_page_size r3 + 1"
      "entries r3 = map (item_entry_of demo_env) (take (nat (lk_page_size r3)) demo_lookup_rows)"
      "lk_has_more r3 \<longleftrightarrow> lk_page_size r3 < int (length demo_lookup_rows)"
    unfolding demo_lookup_fetch by blast
  have "lk_page_size r1 = 2" "lk_page_size r2 = 2" "lk_page_size r3 = 2"
    using lookup_Inr(1) [OF r1(1)] lookup_Inr(2) [OF r2(1)] lookup_Inr(3) [OF r3(1)] size
    by simp_all
  with r1 r2 r3 rows show ?thesis
    by (simp add: demo_lookup_fetch)
qed

section \<open>The permission object of the list\<close>

text \<open>
  Claim C8. Every invoice in a response of \<open>get_invoices\<close> carries the permission
  object with \<open>can_update\<close>, \<open>can_delete\<close> and \<open>can_submit\<close> true and
  \<open>locked\<close> false, whatever rows the executor returned and whatever the permission
  oracle says beyond letting the list be read.
\<close>

theorem list_permission_constant:
  "get_invoices fw sd ed sp pg ps search = Inr r \<Longrightarrow>
     \<forall>inv \<in> set (invoices r).
       inv_permission inv =
         \<lparr> can_update = True, can_delete = True, can_submit = True, locked = False \<rparr>"
  using shape_invoices_permission [OF get_invoices_Inr(4)]
  by (simp add: the_permission_def)

theorem list_permission_constant_witness:
  "\<exists>r. get_invoices demo_env PNone PNone PNone (PInt 0) (PInt 500) PNone = Inr r \<and>
       map inv_permission (invoices r) =
         replicate 3 \<lparr> can_update = True, can_delete = True, can_submit = True, locked = False \<rparr>"
proof -
  obtain r where r: "get_invoices demo_env PNone PNone PNone (PInt 0) (PInt 500) PNone = Inr r"
    and len: "length (invoices r) = 3"
    using demo_list_returns by blast
  have "\<forall>inv \<in> set (invoices r). inv_permission inv =
         \<lparr> can_update = True, can_delete = True, can_submit = True, locked = False \<rparr>"
    using list_permission_constant [OF r] .
  then have "map inv_permission (invoices r) = replicate (length (invoices r))
      \<lparr> can_update = True, can_delete = True, can_submit = True, locked = False \<rparr>"
    by (simp add: map_replicate_const [symmetric] cong: map_cong)
  with r len show ?thesis by auto
qed

section \<open>Submitting\<close>

text \<open>
  Claim C5. For a stored invoice whose \<open>docstatus\<close> is not 0, \<open>submit_invoice\<close>
  raises and leaves the store as it was. For a stored draft whose name is given and on
  which the oracle grants \<open>submit\<close>, it stores the document with \<open>docstatus\<close> 1 and
  returns the name (through \<open>cstr\<close>) with the docstatus 1.
\<close>

theorem submit_invoice_draft_only:
  "(get_doc st nm = Inr doc \<and> docstatus doc \<noteq> 0 \<longrightarrow>
      (\<exists>e. submit_invoice fw st nm = (st, Inl e))) \<and>
   (get_doc st nm' = Inr doc' \<and> docstatus doc' = 0 \<and> nm' \<noteq> [] \<and>
    has_permission fw ''Invoice Form'' ''submit'' (Some doc') \<longrightarrow>
      (\<exists>st'. submit_invoice fw st nm' =
               (st', Inr \<lparr> sub_name = cstr fw (PStr nm'), sub_docstatus = 1 \<rparr>) \<and>
             get_doc st' nm' = Inr (doc'\<lparr>docstatus := 1\<rparr>)))"
proof (intro conjI impI)
  assume "get_doc st nm = Inr doc \<and> docstatus doc \<noteq> 0"
  then show "\<exists>e. submit_invoice fw st nm = (st, Inl e)"
    by (simp add: submit_invoice_def)
next
  assume a: "get_doc st nm' = Inr doc' \<and> docstatus doc' = 0 \<and> nm' \<noteq> [] \<and>
    has_permission fw ''Invoice Form'' ''submit'' (Some doc')"
  then have nm: "name doc' = nm'" using get_doc_Inr by blast
  have "submit_invoice fw st nm' =
          (doc_save st (doc'\<lparr>docstatus := 1\<rparr>),
           Inr \<lparr> sub_name = cstr fw (PStr nm'), sub_docstatus = 1 \<rparr>)"
    using a nm by (simp add: submit_invoice_def doc_submit_def Let_def)
  moreover have "get_doc (doc_save st (doc'\<lparr>docstatus := 1\<rparr>)) nm' = Inr (doc'\<lparr>docstatus := 1\<rparr>)"
    using a nm by (intro get_doc_save) simp_all
  ultimately show "\<exists>st'. submit_invoice fw st nm' =
               (st', Inr \<lparr> sub_name = cstr fw (PStr nm'), sub_docstatus = 1 \<rparr>) \<and>
             get_doc st' nm' = Inr (doc'\<lparr>docstatus := 1\<rparr>)"
    by blast
qed

text \<open>
  In the concrete store \<open>INV-2\<close> is submitted and \<open>INV-1\<close> is a draft.
\<close>

theorem submit_invoice_draft_only_witness:
  "get_doc demo_store ''INV-2'' = Inr (demo_doc ''INV-2'' 1) \<and>
   submit_invoice demo_env demo_store ''INV-2'' =
     (demo_store, Inl (ValidationError ''Only draft invoices can be submitted'')) \<and>
   get_doc demo_store ''INV-1'' = Inr (demo_doc ''INV-1'' 0) \<and>
   (\<exists>st'. submit_invoice demo_env demo_store ''INV-1'' =
            (st', Inr \<lparr> sub_name = ''INV-1'', sub_docstatus = 1 \<rparr>) \<and>
          get_doc st' ''INV-1'' = Inr (demo_doc ''INV-1'' 1))"
proof -
  have d2: "docstatus (demo_doc ''INV-2'' 1) \<noteq> 0" by (simp add: demo_doc_def)
  have d1: "docstatus (demo_doc ''INV-1'' 0) = 0" by (simp add: demo_doc_def)
  have u: "(demo_doc ''INV-1'' 0)\<lparr>docstatus := 1\<rparr> = demo_doc ''INV-1'' 1"
    by (simp add: demo_doc_def)
  have c: "cstr demo_env (PStr ''INV-1'') = ''INV-1''"
    by (simp add: demo_env_def demo_cstr_def)
  from submit_invoice_draft_only
         [of demo_store "''INV-2''" "demo_doc ''INV-2'' 1" demo_env
             "''INV-1''" "demo_doc ''INV-1'' 0"]
    demo_get_doc d1 d2 demo_perm
  have "\<exists>e. submit_invoice demo_env demo_store ''INV-2'' = (demo_store, Inl e)"
    and "\<exists>st'. submit_invoice demo_env demo_store ''INV-1'' =
               (st', Inr \<lparr> sub_name = cstr demo_env (PStr ''INV-1''), sub_docstatus = 1 \<rparr>) \<and>
             get_doc st' ''INV-1'' = Inr ((demo_doc ''INV-1'' 0)\<lparr>docstatus := 1\<rparr>)"
    by simp_all
  moreover have "submit_invoice demo_env demo_store ''INV-2'' =
     (demo_store, Inl (ValidationError ''Only draft invoices can be submitted''))"
    using demo_get_doc(2) d2 by (simp add: submit_invoice_def demo_perm)
  ultimately show ?thesis using demo_get_doc u c by simp
qed

section \<open>Permission denial\<close>

text \<open>
  Claim C2, as stated: every handler that reads or writes documents, among them
  \<open>create_invoice_form\<close>, raises a permission error and writes nothing when the
  oracle denies the permission. \<open>create_invoice_form\<close> does not: it never asks the
  oracle and inserts with \<open>ignore_permissions=True\<close>. Under an oracle that denies
  everything it returns a response and the store holds the new document.
\<close>

theorem create_invoice_form_ignores_permission:
  "has_permission deny_env ''Invoice Form'' ''create'' None = False \<and>
   has_permission deny_env ''Invoice Form'' ''write'' None = False \<and>
   map_sum id cr_name (snd (create_invoice_form deny_env [] demo_form)) = Inr ''INV-NEW-'' \<and>
   map name (fst (create_invoice_form deny_env [] demo_form)) = [''INV-NEW-'']"
  by (simp add: deny_env_def demo_env_def create_invoice_form_def request_data_def
      create_from_data_def demo_form_def demo_data_def demo_items_def dget_def dset_def
      py_or_def bind_err_def commission_rate_of_def tax_rate_of_def pamper_commission_of_def
      item_qty_def item_price_def demo_flt_def new_row_def doc_insert_def Let_def)

text \<open>
  \<open>create_invoice_form\<close> never calls the oracle: with any other oracle in the
  environment it does the same.
\<close>

lemma truthy_oracle: "truthy (fw\<lparr>has_permission := p\<rparr>) v = truthy fw v"
  by (cases v) simp_all

lemma py_or_oracle: "py_or (fw\<lparr>has_permission := p\<rparr>) a b = py_or fw a b"
  by (simp add: py_or_def truthy_oracle)

lemma request_data_oracle:
  "request_data (fw\<lparr>has_permission := p\<rparr>) form_dict = request_data fw form_dict"
  by (simp add: request_data_def py_or_oracle split: pyval.split)

lemma item_numbers_oracle:
  "item_qty (fw\<lparr>has_permission := p\<rparr>) d = item_qty fw d"
  "item_price (fw\<lparr>has_permission := p\<rparr>) d = item_price fw d"
  by (simp_all add: item_qty_def item_price_def py_or_oracle)

lemma compute_totals_oracle:
  "compute_totals (fw\<lparr>has_permission := p\<rparr>) acc xs = compute_totals fw acc xs"
proof (induction xs arbitrary: acc)
  case Nil
  show ?case by simp
next
  case (Cons x xs)
  show ?case
    by (cases x) (simp_all add: Cons.IH item_numbers_oracle truthy_oracle Let_def)
qed

lemma compute_totals_oracle_fun:
  "compute_totals (fw\<lparr>has_permission := p\<rparr>) acc = compute_totals fw acc"
  by (rule ext) (rule compute_totals_oracle)

lemma doc_insert_oracle:
  "doc_insert (fw\<lparr>has_permission := p\<rparr>) st doc = doc_insert fw st doc"
  by (simp add: doc_insert_def)

lemma new_rows_oracle:
  "new_rows (fw\<lparr>has_permission := p\<rparr>) xs = new_rows fw xs"
proof (induction xs)
  case Nil
  show ?case by simp
next
  case (Cons x xs)
  have "new_row (fw\<lparr>has_permission := p\<rparr>) x = new_row fw x"
    by (simp add: new_row_def item_numbers_oracle py_or_oracle split: pyval.split)
  with Cons.IH show ?case by simp
qed

lemma create_from_data_oracle:
  "create_from_data (fw\<lparr>has_permission := p\<rparr>) st d = create_from_data fw st d"
  by (simp add: create_from_data_def truthy_oracle py_or_oracle compute_totals_oracle_fun
        new_rows_oracle commission_rate_of_def tax_rate_of_def pamper_commission_of_def
        doc_insert_oracle Let_def cong: sum.case_cong prod.case_cong)

lemma create_invoice_form_oracle:
  "create_invoice_form (fw\<lparr>has_permission := p\<rparr>) st form_dict =
     create_invoice_form fw st form_dict"
  by (simp add: create_invoice_form_def request_data_oracle create_from_data_oracle
        cong: sum.case_cong)

text \<open>
  Claim C2, amended: the other handlers. \<open>get_invoices\<close> and the three lookups raise
  the permission error when the oracle denies \<open>read\<close> on their document type. The
  handlers of one document reach the oracle once a name is given and the document
  exists; when it then denies \<open>read\<close>, \<open>write\<close>, \<open>submit\<close> or \<open>delete\<close>
  on that document, \<open>get_invoice_details\<close>, \<open>update_invoice\<close>,
  \<open>submit_invoice\<close> and \<open>delete_invoice\<close> raise the permission error, and the
  three that write leave the store as it was. \<open>create_invoice_form\<close> consults no
  oracle: its result and the store it leaves are the same under every oracle.
\<close>

theorem permission_denied_raises:
  "(\<not> has_permission fw ''Invoice Form'' ''read'' None \<longrightarrow>
      get_invoices fw sd ed sp pg ps search = Inl PermissionError) \<and>
   (\<not> has_permission fw ''Supplier'' ''read'' None \<longrightarrow>
      get_supplier fw pg ps search = Inl PermissionError) \<and>
   (\<not> has_permission fw ''Customer'' ''read'' None \<longrightarrow>
      get_customer fw pg ps search = Inl PermissionError) \<and>
   (\<not> has_permission fw ''Item'' ''read'' None \<longrightarrow>
      get_items fw pg ps search = Inl PermissionError) \<and>
   (nm \<noteq> [] \<and> get_doc st nm = Inr doc \<and>
    \<not> has_permission fw ''Invoice Form'' ''read'' (Some doc) \<longrightarrow>
      get_invoice_details fw st nm = Inl PermissionError) \<and>
   (nm \<noteq> [] \<and> get_doc st nm = Inr doc \<and>
    \<not> has_permission fw ''Invoice Form'' ''write'' (Some doc) \<longrightarrow>
      update_invoice fw st form_dict nm data = (st, Inl PermissionError)) \<and>
   (nm \<noteq> [] \<and> get_doc st nm = Inr doc \<and>
    \<not> has_permission fw ''Invoice Form'' ''submit'' (Some doc) \<longrightarrow>
      submit_invoice fw st nm = (st, Inl PermissionError)) \<and>
   (nm \<noteq> [] \<and> get_doc st nm = Inr doc \<and>
    \<not> has_permission fw ''Invoice Form'' ''delete'' (Some doc) \<longrightarrow>
      delete_invoice fw st nm = (st, Inl PermissionError)) \<and>
   create_invoice_form (fw\<lparr>has_permission := oracle\<rparr>) st create_form =
     create_invoice_form fw st create_form"
  by (simp add: get_invoices_def get_supplier_def get_customer_def get_items_def
        get_invoice_details_def update_invoice_def submit_invoice_def delete_invoice_def
        bind_err_def create_invoice_form_oracle)

theorem permission_denied_raises_witness:
  "get_invoices deny_env PNone PNone PNone (PInt 1) (PInt 20) PNone = Inl PermissionError \<and>
   get_supplier deny_env (PInt 1) (PInt 20) PNone = Inl PermissionError \<and>
   get_customer deny_env (PInt 1) (PInt 20) PNone = Inl PermissionError \<and>
   get_items deny_env (PInt 1) (PInt 20) PNone = Inl PermissionError \<and>
   get_doc demo_store ''INV-1'' = Inr (demo_doc ''INV-1'' 0) \<and>
   get_invoice_details deny_env demo_store ''INV-1'' = Inl PermissionError \<and>
   update_invoice deny_env demo_store [] ''INV-1'' (PDict [(''supplier'', PStr ''S9'')]) =
     (demo_store, Inl PermissionError) \<and>
   submit_invoice deny_env demo_store ''INV-1'' = (demo_store, Inl PermissionError) \<and>
   delete_invoice deny_env demo_store ''INV-1'' = (demo_store, Inl PermissionError) \<and>
   create_invoice_form demo_env demo_store demo_form =
     create_invoice_form deny_env demo_store demo_form"
proof -
  have n: "''INV-1'' \<noteq> []" by simp
  have e: "deny_env\<lparr>has_permission := (\<lambda>doctype ptype doc. True)\<rparr> = demo_env"
    by (simp add: deny_env_def demo_env_def)
  show ?thesis
    using permission_denied_raises
            [of deny_env PNone PNone PNone "PInt 1" "PInt 20" PNone "''INV-1''" demo_store
                "demo_doc ''INV-1'' 0" "[]" "PDict [(''supplier'', PStr ''S9'')]"
                "\<lambda>doctype ptype doc. True" demo_form]
      demo_get_doc(1) n deny_all
    by (simp add: e)
qed

section \<open>Creating an invoice: the totals\<close>

text \<open>The loop adds the line totals of the items, in order, to the sum it starts from.\<close>

lemma compute_totals_sum:
  "compute_totals fw acc xs = Inr (its', g) \<Longrightarrow>
     \<exists>ds. xs = map PDict ds \<and> g = foldl (float_add fw) acc (map (line_total fw) ds)"
proof (induction xs arbitrary: acc its' g)
  case Nil
  then show ?case by simp
next
  case (Cons x xs)
  from Cons.prems obtain d where x: "x = PDict d"
    by (cases x) simp_all
  from Cons.prems x obtain its'' where
    rest: "compute_totals fw (float_add fw acc (line_total fw d)) xs = Inr (its'', g)"
    by (auto simp: Let_def bind_err_Inr_iff line_total_def dget_dset split: if_splits)
  from Cons.IH [OF rest] obtain ds where
    "xs = map PDict ds"
    "g = foldl (float_add fw) (float_add fw acc (line_total fw d)) (map (line_total fw) ds)"
    by blast
  with x have "x # xs = map PDict (d # ds) \<and>
      g = foldl (float_add fw) acc (map (line_total fw) (d # ds))"
    by simp
  then show ?case by (rule exI)
qed

text \<open>Only a list of dictionaries gets through the loop.\<close>

lemma iter_dicts:
  "truthy fw v \<Longrightarrow> py_iter v = Inr (map PDict ds) \<Longrightarrow> v = PList (map PDict ds)"
  by (cases v; cases ds) auto

lemma truthy_py_or_empty:
  "truthy fw (py_or fw v (PList [])) \<Longrightarrow> py_or fw v (PList []) = v"
  by (auto simp: py_or_def split: if_splits)

lemma get_doc_append:
  "find (\<lambda>x. name x = name doc) st = None \<Longrightarrow> get_doc (st @ [doc]) (name doc) = Inr doc"
  by (induction st) (auto simp: get_doc_def split: if_splits)

lemma create_from_data_Inr:
  assumes "create_from_data fw st d = (st', Inr r)"
  shows "\<exists>xs its' g rows doc.
           truthy fw (dget d ''posting_date'') \<and> truthy fw (dget d ''supplier'') \<and>
           truthy fw (py_or fw (dget d ''items'') (PList [])) \<and>
           py_iter (py_or fw (dget d ''items'') (PList [])) = Inr xs \<and>
           compute_totals fw (float_of_int fw 0) xs = Inr (its', g) \<and>
           new_rows fw its' = Inr rows \<and>
           find (\<lambda>x. name x = autoname fw st) st = None \<and>
           st' = st @ [doc] \<and>
           name doc = autoname fw st \<and>
           lock_update doc = PInt 1 \<and> is_draft doc = PInt 1 \<and> docstatus doc = 0 \<and>
           grand_total doc = PFloat g \<and>
           total_commissions_and_taxes doc =
             PFloat (commissions_and_taxes fw g (commission_rate_of fw d) (tax_rate_of fw d)) \<and>
           items doc = rows \<and>
           cr_name r = name doc \<and>
           cr_grand_total r = grand_total doc \<and>
           cr_total_commissions_and_taxes r = total_commissions_and_taxes doc"
  using assms
  unfolding create_from_data_def doc_insert_def commissions_and_taxes_def Let_def
  by (auto simp: bind_err_Inr_iff split: if_splits sum.splits option.splits prod.splits)

lemma create_invoice_form_data:
  "request_data fw form_dict = Inr d \<Longrightarrow>
     create_invoice_form fw st form_dict = create_from_data fw st d"
  by (simp add: create_invoice_form_def)

lemma create_invoice_form_Inr:
  "create_invoice_form fw st form_dict = (st', Inr r) \<Longrightarrow>
     \<exists>d. request_data fw form_dict = Inr d \<and> create_from_data fw st d = (st', Inr r)"
  by (auto simp: create_invoice_form_def split: sum.splits)

text \<open>The created document, found again under the returned name.\<close>

lemma created_doc:
  assumes "create_from_data fw st d = (st', Inr r)"
  shows "\<exists>ds g doc rows its'.
           dget d ''items'' = PList (map PDict ds) \<and> ds \<noteq> [] \<and>
           g = float_sum fw (map (line_total fw) ds) \<and>
           get_doc st' (cr_name r) = Inr doc \<and>
           lock_update doc = PInt 1 \<and> is_draft doc = PInt 1 \<and>
           grand_total doc = PFloat g \<and>
           total_commissions_and_taxes doc =
             PFloat (commissions_and_taxes fw g (commission_rate_of fw d) (tax_rate_of fw d)) \<and>
           new_rows fw its' = Inr rows \<and> items doc = rows \<and>
           cr_grand_total r = grand_total doc \<and>
           cr_total_commissions_and_taxes r = total_commissions_and_taxes doc"
proof -
  from create_from_data_Inr [OF assms] obtain xs its' g rows doc where
    tr: "truthy fw (py_or fw (dget d ''items'') (PList []))" and
    it: "py_iter (py_or fw (dget d ''items'') (PList [])) = Inr xs" and
    ct: "compute_totals fw (float_of_int fw 0) xs = Inr (its', g)" and
    nr: "new_rows fw its' = Inr rows" and
    fresh: "find (\<lambda>x. name x = autoname fw st) st = None" and
    st': "st' = st @ [doc]" and
    nm: "name doc = autoname fw st" and
    doc: "lock_update doc = PInt 1" "is_draft doc = PInt 1" "grand_total doc = PFloat g"
      "total_commissions_and_taxes doc =
         PFloat (commissions_and_taxes fw g (commission_rate_of fw d) (tax_rate_of fw d))"
      "items doc = rows" and
    r: "cr_name r = name doc" "cr_grand_total r = grand_total doc"
      "cr_total_commissions_and_taxes r = total_commissions_and_taxes doc"
    by blast
  from compute_totals_sum [OF ct] obtain ds where
    xs: "xs = map PDict ds" and g: "g = float_sum fw (map (line_total fw) ds)"
    unfolding float_sum_def by blast
  have items: "dget d ''items'' = PList (map PDict ds)"
    using iter_dicts [OF tr] it xs truthy_py_or_empty [OF tr] by simp
  with tr have ne: "ds \<noteq> []" by (auto simp: py_or_def)
  have "get_doc st' (cr_name r) = Inr doc"
    using get_doc_append [of doc st] fresh nm st' r(1) by simp
  with items ne g doc r nr show ?thesis by blast
qed

text \<open>A falsy rate and the default in its place give the same run.\<close>

lemma default_commission_rate:
  "\<not> truthy fw (dget d ''commission_rate'') \<Longrightarrow>
     create_from_data fw st (dset d ''commission_rate'' (PInt 5)) = create_from_data fw st d"
  by (simp add: create_from_data_def commission_rate_of_def tax_rate_of_def
        pamper_commission_of_def dget_dset py_or_def Let_def)

lemma default_tax_rate:
  "\<not> truthy fw (dget d ''tax_rate'') \<Longrightarrow>
     create_from_data fw st (dset d ''tax_rate'' (PInt 15)) = create_from_data fw st d"
  by (simp add: create_from_data_def commission_rate_of_def tax_rate_of_def
        pamper_commission_of_def dget_dset py_or_def Let_def)

text \<open>The handler on the concrete payloads.\<close>

lemma demo_request_data:
  "request_data demo_env demo_form = Inr demo_data"
  by (simp add: request_data_def demo_form_def demo_data_def dget_def py_or_def bind_err_def)

lemma round_request_data:
  "request_data demo_env (form_of no_rates_data) = Inr no_rates_data"
  "request_data demo_env (form_of given_rates_data) = Inr given_rates_data"
  "request_data demo_env (form_of zero_rates_data) = Inr zero_rates_data"
  "request_data demo_env (form_of string_zero_data) = Inr string_zero_data"
  by (simp_all add: request_data_def form_of_def no_rates_data_def given_rates_data_def
        zero_rates_data_def string_zero_data_def dget_def py_or_def bind_err_def)

lemmas create_eval_defs =
  demo_env_def create_invoice_form_def request_data_def create_from_data_def
  demo_form_def demo_data_def demo_items_def zero_total_form_def zero_total_data_def
  zero_total_item_def form_of_def round_items_def no_rates_data_def given_rates_data_def
  zero_rates_data_def string_zero_data_def demo_store_def demo_doc_def
  dget_def dset_def py_or_def bind_err_def commission_rate_of_def tax_rate_of_def
  pamper_commission_of_def item_qty_def item_price_def demo_flt_def new_row_def
  doc_insert_def Let_def

lemma demo_create:
  "\<exists>st' r. create_invoice_form demo_env [] demo_form = (st', Inr r) \<and>
     cr_grand_total r = PFloat 27"
  by (simp add: create_eval_defs)

lemma demo_store_create:
  "\<exists>st' r. create_invoice_form demo_env demo_store demo_form = (st', Inr r) \<and>
     cr_name r = ''INV-NEW-xx''"
  by (simp add: create_eval_defs)

lemma demo_line_totals:
  "float_sum demo_env (map (line_total demo_env) demo_items) = 27"
  by (simp add: float_sum_def line_total_def demo_items_def demo_env_def demo_flt_def
        item_qty_def item_price_def dget_def py_or_def)

text \<open>
  Claim C3, as stated: the line total of an item is the total it provides, or quantity
  times price when it provides none. An item that provides the total 0 with quantity 2
  and price 3 contributes 6: \<open>flt(total) or (qty * price)\<close> takes the product
  whenever the converted total is zero. The sum in the words of the claim is 0.
\<close>

theorem zero_total_uses_qty_times_price:
  "map_sum id cr_grand_total (snd (create_invoice_form demo_env [] zero_total_form)) =
     Inr (PFloat 6) \<and>
   dget zero_total_data ''items'' = PList [PDict zero_total_item] \<and>
   float_sum demo_env (map (spec_line_total demo_env) [zero_total_item]) = 0"
  by (simp add: create_eval_defs float_sum_def spec_line_total_def)

text \<open>
  Claim C3, amended. When \<open>create_invoice_form\<close> accepts a payload, its items are a
  non-empty list of dictionaries, and the \<open>grand_total\<close> of the stored document, which
  the response repeats, is the float sum, from 0.0 and in list order, of the line totals,
  where the line total of an item is \<open>flt\<close> of its \<open>total\<close> when that is not zero
  and quantity times price otherwise.
\<close>

theorem grand_total_is_sum_of_line_totals:
  "request_data fw form_dict = Inr d \<Longrightarrow>
   create_invoice_form fw st form_dict = (st', Inr r) \<Longrightarrow>
     \<exists>ds doc. dget d ''items'' = PList (map PDict ds) \<and> ds \<noteq> [] \<and>
       get_doc st' (cr_name r) = Inr doc \<and>
       grand_total doc = PFloat (float_sum fw (map (line_total fw) ds)) \<and>
       cr_grand_total r = grand_total doc"
proof -
  assume a: "request_data fw form_dict = Inr d"
    and b: "create_invoice_form fw st form_dict = (st', Inr r)"
  from a b have "create_from_data fw st d = (st', Inr r)"
    by (simp add: create_invoice_form_data)
  from created_doc [OF this] show ?thesis by blast
qed

text \<open>Two items, 7 as given and 4 times 5: the total is 27.\<close>

theorem grand_total_is_sum_of_line_totals_witness:
  "\<exists>st' r doc.
     request_data demo_env demo_form = Inr demo_data \<and>
     create_invoice_form demo_env [] demo_form = (st', Inr r) \<and>
     dget demo_data ''items'' = PList (map PDict demo_items) \<and>
     get_doc st' (cr_name r) = Inr doc \<and>
     grand_total doc = PFloat 27 \<and> cr_grand_total r = PFloat 27"
proof -
  obtain st' r where cr: "create_invoice_form demo_env [] demo_form = (st', Inr r)"
    using demo_create by blast
  have its: "dget demo_data ''items'' = PList (map PDict demo_items)"
    by (simp add: demo_data_def dget_def)
  from grand_total_is_sum_of_line_totals [OF demo_request_data cr] obtain ds doc where
    ds: "dget demo_data ''items'' = PList (map PDict ds)" and
    doc: "get_doc st' (cr_name r) = Inr doc"
      "grand_total doc = PFloat (float_sum demo_env (map (line_total demo_env) ds))"
      "cr_grand_total r = grand_total doc"
    by blast
  from ds its have "map PDict ds = map PDict demo_items" by simp
  then have "ds = demo_items" by (simp add: inj_map_eq_map inj_def)
  with doc cr its demo_request_data demo_line_totals show ?thesis by simp
qed

section \<open>Creating an invoice: commissions and taxes\<close>

text \<open>The handler on the payloads with a total of 400.\<close>

lemma round_create:
  "\<exists>st' r. create_invoice_form demo_env [] (form_of given_rates_data) = (st', Inr r) \<and>
     cr_grand_total r = PFloat 400"
  "\<exists>st' r. create_invoice_form demo_env [] (form_of no_rates_data) = (st', Inr r) \<and>
     cr_grand_total r = PFloat 400"
  "\<exists>st' r. create_invoice_form demo_env [] (form_of zero_rates_data) = (st', Inr r) \<and>
     cr_grand_total r = PFloat 400"
  "\<exists>st' r. create_invoice_form demo_env [] (form_of string_zero_data) = (st', Inr r) \<and>
     cr_grand_total r = PFloat 400"
  by (simp_all add: create_eval_defs)

lemma round_rates:
  "dget given_rates_data ''commission_rate'' = PInt 10"
  "dget given_rates_data ''tax_rate'' = PInt 20"
  "map_of no_rates_data ''commission_rate'' = None"
  "map_of no_rates_data ''tax_rate'' = None"
  "dget no_rates_data ''commission_rate'' = PNone"
  "dget no_rates_data ''tax_rate'' = PNone"
  "dget zero_rates_data ''commission_rate'' = PInt 0"
  "dget zero_rates_data ''tax_rate'' = PFloat 0"
  "dget string_zero_data ''commission_rate'' = PStr ''0''"
  "dget string_zero_data ''tax_rate'' = PStr ''0''"
  by (simp_all add: given_rates_data_def no_rates_data_def zero_rates_data_def
        string_zero_data_def dget_def)

lemma demo_ops:
  "float_add demo_env = (+)" "float_mul demo_env = (*)" "float_div demo_env = (/)"
  "float_of_int demo_env = of_int" "float_is_zero demo_env x = (x = 0)"
  "flt demo_env (PInt n) = of_int n" "flt demo_env (PFloat x) = x"
  "flt demo_env (PStr ''0'') = 0"
  by (simp_all add: demo_env_def demo_flt_def)

text \<open>
  Claim C4, as stated: the rates are the ones the payload gives, 5 and 15 when it gives
  none. A payload that gives a commission rate of 0 and a tax rate of 0.0 on a total
  of 400 is charged 20 + 3 = 23, at the rates 5 and 15: \<open>data.get(..) or 5\<close> takes
  the default for every falsy value. The formula at the rates as given is 0.
\<close>

theorem zero_rate_charged_at_default:
  "map_sum id (\<lambda>r. (cr_grand_total r, cr_total_commissions_and_taxes r))
     (snd (create_invoice_form demo_env [] (form_of zero_rates_data))) =
     Inr (PFloat 400, PFloat 23) \<and>
   dget zero_rates_data ''commission_rate'' = PInt 0 \<and>
   dget zero_rates_data ''tax_rate'' = PFloat 0 \<and>
   commissions_and_taxes demo_env 400
     (spec_commission_rate demo_env zero_rates_data) (spec_tax_rate demo_env zero_rates_data) = 0"
  by (simp add: create_eval_defs commissions_and_taxes_def spec_commission_rate_def
        spec_tax_rate_def)

text \<open>
  Claim C4, amended. When \<open>create_invoice_form\<close> accepts a payload, the stored
  document has a float \<open>grand_total\<close> g, and its \<open>total_commissions_and_taxes\<close>,
  which the response repeats, is \<open>(g * commission_rate / 100) + ((g * commission_rate /
  100) * tax_rate / 100)\<close> in float arithmetic, in this order of operations. The
  commission rate is \<open>flt\<close> of the payload's value when that is truthy and \<open>flt\<close>
  of 5 otherwise, so also when the payload has none; the tax rate likewise, with 15.
\<close>

theorem total_commissions_and_taxes_formula:
  "request_data fw form_dict = Inr d \<Longrightarrow>
   create_invoice_form fw st form_dict = (st', Inr r) \<Longrightarrow>
     (\<exists>g doc. get_doc st' (cr_name r) = Inr doc \<and> grand_total doc = PFloat g \<and>
        total_commissions_and_taxes doc =
          PFloat (float_add fw
                    (float_div fw (float_mul fw g (commission_rate_of fw d)) (float_of_int fw 100))
                    (float_div fw
                       (float_mul fw
                          (float_div fw (float_mul fw g (commission_rate_of fw d))
                             (float_of_int fw 100))
                          (tax_rate_of fw d))
                       (float_of_int fw 100))) \<and>
        cr_grand_total r = grand_total doc \<and>
        cr_total_commissions_and_taxes r = total_commissions_and_taxes doc) \<and>
     commission_rate_of fw d =
       (if truthy fw (dget d ''commission_rate'') then flt fw (dget d ''commission_rate'')
        else flt fw (PInt 5)) \<and>
     tax_rate_of fw d =
       (if truthy fw (dget d ''tax_rate'') then flt fw (dget d ''tax_rate'')
        else flt fw (PInt 15)) \<and>
     (map_of d ''commission_rate'' = None \<longrightarrow> commission_rate_of fw d = flt fw (PInt 5)) \<and>
     (map_of d ''tax_rate'' = None \<longrightarrow> tax_rate_of fw d = flt fw (PInt 15))"
proof -
  assume a: "request_data fw form_dict = Inr d"
    and b: "create_invoice_form fw st form_dict = (st', Inr r)"
  from a b have "create_from_data fw st d = (st', Inr r)"
    by (simp add: create_invoice_form_data)
  from created_doc [OF this] have
    "\<exists>g doc. get_doc st' (cr_name r) = Inr doc \<and> grand_total doc = PFloat g \<and>
        total_commissions_and_taxes doc =
          PFloat (commissions_and_taxes fw g (commission_rate_of fw d) (tax_rate_of fw d)) \<and>
        cr_grand_total r = grand_total doc \<and>
        cr_total_commissions_and_taxes r = total_commissions_and_taxes doc"
    by blast
  then show ?thesis
    by (simp add: commissions_and_taxes_def commission_rate_of_def tax_rate_of_def
          dget_def py_or_def)
qed

text \<open>
  A total of 400 at the given rates 10 and 20 is charged 40 + 8; with no rates in the
  payload, and with the rates 0 and 0.0, it is charged 20 + 3.
\<close>

theorem total_commissions_and_taxes_formula_witness:
  "\<exists>st1 r1 st2 r2 st3 r3.
     create_invoice_form demo_env [] (form_of given_rates_data) = (st1, Inr r1) \<and>
     commission_rate_of demo_env given_rates_data = 10 \<and>
     tax_rate_of demo_env given_rates_data = 20 \<and>
     cr_grand_total r1 = PFloat 400 \<and> cr_total_commissions_and_taxes r1 = PFloat 48 \<and>
     create_invoice_form demo_env [] (form_of no_rates_data) = (st2, Inr r2) \<and>
     commission_rate_of demo_env no_rates_data = 5 \<and>
     tax_rate_of demo_env no_rates_data = 15 \<and>
     cr_grand_total r2 = PFloat 400 \<and> cr_total_commissions_and_taxes r2 = PFloat 23 \<and>
     create_invoice_form demo_env [] (form_of zero_rates_data) = (st3, Inr r3) \<and>
     commission_rate_of demo_env zero_rates_data = 5 \<and>
     tax_rate_of demo_env zero_rates_data = 15 \<and>
     cr_grand_total r3 = PFloat 400 \<and> cr_total_commissions_and_taxes r3 = PFloat 23"
proof -
  obtain st1 r1 where
    c1: "create_invoice_form demo_env [] (form_of given_rates_data) = (st1, Inr r1)"
    and g1: "cr_grand_total r1 = PFloat 400"
    using round_create(1) by blast
  obtain st2 r2 where
    c2: "create_invoice_form demo_env [] (form_of no_rates_data) = (st2, Inr r2)"
    and g2: "cr_grand_total r2 = PFloat 400"
    using round_create(2) by blast
  obtain st3 r3 where
    c3: "create_invoice_form demo_env [] (form_of zero_rates_data) = (st3, Inr r3)"
    and g3: "cr_grand_total r3 = PFloat 400"
    using round_create(3) by blast
  from total_commissions_and_taxes_formula [OF round_request_data(2) c1] g1
  have a: "commission_rate_of demo_env given_rates_data = 10"
    "tax_rate_of demo_env given_rates_data = 20"
    "cr_total_commissions_and_taxes r1 = PFloat 48"
    by (auto simp: round_rates demo_ops)
  from total_commissions_and_taxes_formula [OF round_request_data(1) c2] g2 round_rates(3,4)
  have b: "commission_rate_of demo_env no_rates_data = 5"
    "tax_rate_of demo_env no_rates_data = 15"
    "cr_total_commissions_and_taxes r2 = PFloat 23"
    by (auto simp: round_rates demo_ops)
  from total_commissions_and_taxes_formula [OF round_request_data(3) c3] g3
  have c: "commission_rate_of demo_env zero_rates_data = 5"
    "tax_rate_of demo_env zero_rates_data = 15"
    "cr_total_commissions_and_taxes r3 = PFloat 23"
    by (auto simp: round_rates demo_ops)
  from a b c c1 c2 c3 g1 g2 g3 show ?thesis by blast
qed

section \<open>Creating an invoice: falsy rates\<close>

text \<open>
  Claim C9, as stated: a falsy rate is replaced by the default, so that a zero rate
  cannot be requested. The replacement is decided by the truth value of the payload's
  value, before \<open>flt\<close> converts it: the string \<open>"0"\<close> is truthy, \<open>flt\<close> makes
  it 0.0, and the payload is accepted at the rates 0 and 0, charged 0 on a total of 400.
\<close>

theorem string_zero_rate_is_used:
  "dget string_zero_data ''commission_rate'' = PStr ''0'' \<and>
   dget string_zero_data ''tax_rate'' = PStr ''0'' \<and>
   truthy demo_env (PStr ''0'') \<and>
   commission_rate_of demo_env string_zero_data = 0 \<and>
   tax_rate_of demo_env string_zero_data = 0 \<and>
   map_sum id (\<lambda>r. (cr_grand_total r, cr_total_commissions_and_taxes r))
     (snd (create_invoice_form demo_env [] (form_of string_zero_data))) =
     Inr (PFloat 400, PFloat 0)"
  by (simp add: create_eval_defs)

text \<open>
  Claim C9, amended. When the payload's \<open>commission_rate\<close> is falsy (0, 0.0, an empty
  string, \<open>None\<close>, absent), the rate used is \<open>flt\<close> of 5 and the handler does
  exactly what it does on the payload with \<open>commission_rate\<close> set to 5; when its
  \<open>tax_rate\<close> is falsy, the rate used is \<open>flt\<close> of 15 and the handler does exactly
  what it does on the payload with \<open>tax_rate\<close> set to 15. A truthy value is used as
  \<open>flt\<close> converts it, whatever that is.
\<close>

theorem falsy_rates_defaulted:
  "request_data fw form_dict = Inr d \<Longrightarrow>
     (\<not> truthy fw (dget d ''commission_rate'') \<longrightarrow>
        commission_rate_of fw d = flt fw (PInt 5) \<and>
        create_invoice_form fw st form_dict =
          create_from_data fw st (dset d ''commission_rate'' (PInt 5))) \<and>
     (\<not> truthy fw (dget d ''tax_rate'') \<longrightarrow>
        tax_rate_of fw d = flt fw (PInt 15) \<and>
        create_invoice_form fw st form_dict =
          create_from_data fw st (dset d ''tax_rate'' (PInt 15))) \<and>
     (truthy fw (dget d ''commission_rate'') \<longrightarrow>
        commission_rate_of fw d = flt fw (dget d ''commission_rate'')) \<and>
     (truthy fw (dget d ''tax_rate'') \<longrightarrow> tax_rate_of fw d = flt fw (dget d ''tax_rate''))"
  by (simp add: create_invoice_form_data default_commission_rate default_tax_rate
        commission_rate_of_def tax_rate_of_def py_or_def)

text \<open>
  With a commission rate of 0 and a tax rate of 0.0 on a total of 400 the handler
  charges 20 + 3, as with 5 and 15; with both rates \<open>"0"\<close> the rates are 0.
\<close>

theorem falsy_rates_defaulted_witness:
  "request_data demo_env (form_of zero_rates_data) = Inr zero_rates_data \<and>
   dget zero_rates_data ''commission_rate'' = PInt 0 \<and>
   dget zero_rates_data ''tax_rate'' = PFloat 0 \<and>
   commission_rate_of demo_env zero_rates_data = 5 \<and>
   tax_rate_of demo_env zero_rates_data = 15 \<and>
   create_invoice_form demo_env [] (form_of zero_rates_data) =
     create_from_data demo_env [] (dset zero_rates_data ''commission_rate'' (PInt 5)) \<and>
   create_invoice_form demo_env [] (form_of zero_rates_data) =
     create_from_data demo_env [] (dset zero_rates_data ''tax_rate'' (PInt 15)) \<and>
   map_sum id cr_total_commissions_and_taxes
     (snd (create_invoice_form demo_env [] (form_of zero_rates_data))) = Inr (PFloat 23) \<and>
   request_data demo_env (form_of string_zero_data) = Inr string_zero_data \<and>
   dget string_zero_data ''commission_rate'' = PStr ''0'' \<and>
   dget string_zero_data ''tax_rate'' = PStr ''0'' \<and>
   commission_rate_of demo_env string_zero_data = 0 \<and>
   tax_rate_of demo_env string_zero_data = 0"
proof -
  have f: "\<not> truthy demo_env (dget zero_rates_data ''commission_rate'')"
    "\<not> truthy demo_env (dget zero_rates_data ''tax_rate'')"
    by (simp_all add: round_rates demo_ops)
  have t: "truthy demo_env (dget string_zero_data ''commission_rate'')"
    "truthy demo_env (dget string_zero_data ''tax_rate'')"
    by (simp_all add: round_rates)
  have v: "map_sum id cr_total_commissions_and_taxes
     (snd (create_invoice_form demo_env [] (form_of zero_rates_data))) = Inr (PFloat 23)"
    by (simp add: create_eval_defs)
  from falsy_rates_defaulted [OF round_request_data(3), of "[]"] f
  have c: "commission_rate_of demo_env zero_rates_data = flt demo_env (PInt 5)"
    "create_invoice_form demo_env [] (form_of zero_rates_data) =
       create_from_data demo_env [] (dset zero_rates_data ''commission_rate'' (PInt 5))"
    "tax_rate_of demo_env zero_rates_data = flt demo_env (PInt 15)"
    "create_invoice_form demo_env [] (form_of zero_rates_data) =
       create_from_data demo_env [] (dset zero_rates_data ''tax_rate'' (PInt 15))"
    by blast+
  from falsy_rates_defaulted [OF round_request_data(4), of "[]"] t
  have s: "commission_rate_of demo_env string_zero_data =
             flt demo_env (dget string_zero_data ''commission_rate'')"
    "tax_rate_of demo_env string_zero_data = flt demo_env (dget string_zero_data ''tax_rate'')"
    by blast+
  have r: "commission_rate_of demo_env zero_rates_data = 5"
    "tax_rate_of demo_env zero_rates_data = 15"
    "commission_rate_of demo_env string_zero_data = 0"
    "tax_rate_of demo_env string_zero_data = 0"
    using c(1,3) s by (simp_all add: round_rates demo_ops)
  from round_request_data(3,4) round_rates(7-10) r c(2) c(4) v show ?thesis by blast
qed

section \<open>A created invoice is locked\<close>

text \<open>
  The rows that \<open>create_invoice_form\<close> appends hold floats, on which the
  \<open>float\<close> calls of \<open>get_invoice_details\<close> do not raise.
\<close>

lemma py_float_of_float:
  "\<exists>x. py_float fw (py_or fw (PFloat a) (PInt 0)) = Inr x"
  by (simp add: py_or_def)

lemma new_rows_floats:
  "new_rows fw its = Inr rows \<Longrightarrow>
     \<forall>row \<in> set rows.
       \<exists>a b c. qty row = PFloat a \<and> price row = PFloat b \<and> row_total row = PFloat c"
proof (induction its arbitrary: rows)
  case Nil
  then show ?case by simp
next
  case (Cons it its)
  from Cons.prems obtain row rest where
    row: "new_row fw it = Inr row" and rest: "new_rows fw its = Inr rest" and
    rows: "rows = row # rest"
    by (auto simp: bind_err_Inr_iff)
  from row have "\<exists>a b c. qty row = PFloat a \<and> price row = PFloat b \<and> row_total row = PFloat c"
    by (cases it) (auto simp: new_row_def)
  with Cons.IH [OF rest] rows show ?case by simp
qed

lemma detail_items_floats:
  "\<forall>row \<in> set rows.
     \<exists>a b c. qty row = PFloat a \<and> price row = PFloat b \<and> row_total row = PFloat c \<Longrightarrow>
   \<exists>out. detail_items fw rows = Inr out"
proof (induction rows)
  case Nil
  then show ?case by simp
next
  case (Cons row rows)
  then obtain a b c out where
    f: "qty row = PFloat a" "price row = PFloat b" "row_total row = PFloat c" and
    out: "detail_items fw rows = Inr out"
    by auto
  obtain q where q: "py_float fw (py_or fw (PFloat a) (PInt 0)) = Inr q"
    using py_float_of_float [of fw a] by (elim exE)
  obtain p where p: "py_float fw (py_or fw (PFloat b) (PInt 0)) = Inr p"
    using py_float_of_float [of fw b] by (elim exE)
  obtain t where t: "py_float fw (py_or fw (PFloat c) (PInt 0)) = Inr t"
    using py_float_of_float [of fw c] by (elim exE)
  from f out q p t show ?case by (simp add: bind_err_def)
qed

lemma details_of_doc:
  assumes "nm \<noteq> []" and "get_doc st nm = Inr doc"
    and "has_permission fw ''Invoice Form'' ''read'' (Some doc)"
    and "detail_items fw (items doc) = Inr its"
    and "grand_total doc = PFloat g" and "total_commissions_and_taxes doc = PFloat t"
  shows "\<exists>det. get_invoice_details fw st nm = Inr det \<and>
           det_is_locked det = truthy fw (lock_update doc) \<and>
           locked (det_permission det) = truthy fw (lock_update doc)"
proof -
  obtain amount where amount: "py_float fw (py_or fw (PFloat g) (PInt 0)) = Inr amount"
    using py_float_of_float [of fw g] by (elim exE)
  obtain tax where tax: "py_float fw (py_or fw (PFloat t) (PInt 0)) = Inr tax"
    using py_float_of_float [of fw t] by (elim exE)
  from assms amount tax show ?thesis
    by (simp add: get_invoice_details_def bind_err_def Let_def)
qed

text \<open>
  Claim C10. When \<open>create_invoice_form\<close> returns a response, the store holds, under
  the returned name, a document with \<open>lock_update\<close> 1 and \<open>is_draft\<close> 1; and
  when that name is not empty and the oracle lets the document be read,
  \<open>get_invoice_details\<close> on it returns, with \<open>is_locked\<close> true and the
  permission object's \<open>locked\<close> true.
\<close>

theorem created_invoice_locked:
  "create_invoice_form fw st form_dict = (st', Inr r) \<Longrightarrow>
     \<exists>doc. get_doc st' (cr_name r) = Inr doc \<and>
       lock_update doc = PInt 1 \<and> is_draft doc = PInt 1 \<and>
       (cr_name r \<noteq> [] \<and> has_permission fw ''Invoice Form'' ''read'' (Some doc) \<longrightarrow>
          (\<exists>det. get_invoice_details fw st' (cr_name r) = Inr det \<and>
             det_is_locked det \<and> locked (det_permission det)))"
proof -
  assume "create_invoice_form fw st form_dict = (st', Inr r)"
  then obtain d where "create_from_data fw st d = (st', Inr r)"
    using create_invoice_form_Inr by blast
  from created_doc [OF this] obtain doc g t rows its' where
    doc: "get_doc st' (cr_name r) = Inr doc" "lock_update doc = PInt 1" "is_draft doc = PInt 1"
      "grand_total doc = PFloat g" "total_commissions_and_taxes doc = PFloat t" and
    rows: "new_rows fw its' = Inr rows" "items doc = rows"
    by blast
  from detail_items_floats [OF new_rows_floats [OF rows(1)] ] rows(2)
  obtain its where its: "detail_items fw (items doc) = Inr its" by blast
  have "cr_name r \<noteq> [] \<and> has_permission fw ''Invoice Form'' ''read'' (Some doc) \<longrightarrow>
          (\<exists>det. get_invoice_details fw st' (cr_name r) = Inr det \<and>
             det_is_locked det \<and> locked (det_permission det))"
  proof
    assume a: "cr_name r \<noteq> [] \<and> has_permission fw ''Invoice Form'' ''read'' (Some doc)"
    then have n: "cr_name r \<noteq> []"
      and p: "has_permission fw ''Invoice Form'' ''read'' (Some doc)"
      by simp_all
    from details_of_doc [OF n doc(1) p its doc(4) doc(5)] doc(2)
    show "\<exists>det. get_invoice_details fw st' (cr_name r) = Inr det \<and>
             det_is_locked det \<and> locked (det_permission det)"
      by simp
  qed
  with doc(1,2,3) show ?thesis by blast
qed

text \<open>An invoice created next to the two of the concrete store, then read back.\<close>

theorem created_invoice_locked_witness:
  "\<exists>st' r det.
     create_invoice_form demo_env demo_store demo_form = (st', Inr r) \<and>
     cr_name r = ''INV-NEW-xx'' \<and>
     map_sum id lock_update (get_doc st' ''INV-NEW-xx'') = Inr (PInt 1) \<and>
     map_sum id is_draft (get_doc st' ''INV-NEW-xx'') = Inr (PInt 1) \<and>
     get_invoice_details demo_env st' ''INV-NEW-xx'' = Inr det \<and>
     det_is_locked det \<and> locked (det_permission det)"
proof -
  obtain st' r where c: "create_invoice_form demo_env demo_store demo_form = (st', Inr r)"
    and n: "cr_name r = ''INV-NEW-xx''"
    using demo_store_create by blast
  from created_invoice_locked [OF c] obtain doc where
    doc: "get_doc st' (cr_name r) = Inr doc" "lock_update doc = PInt 1" "is_draft doc = PInt 1"
    and imp: "cr_name r \<noteq> [] \<and> has_permission demo_env ''Invoice Form'' ''read'' (Some doc) \<longrightarrow>
          (\<exists>det. get_invoice_details demo_env st' (cr_name r) = Inr det \<and>
             det_is_locked det \<and> locked (det_permission det))"
    by (elim exE conjE)
  from imp n demo_perm obtain det where
    det: "get_invoice_details demo_env st' ''INV-NEW-xx'' = Inr det"
      "det_is_locked det" "locked (det_permission det)"
    by auto
  from c n doc det show ?thesis by auto
qed

section \<open>The has-more flag of the invoice list\<close>

text \<open>
  Without a search string the flag is right: when the executor returns the requested
  window of the matching rows and the count is their number, \<open>has_more\<close> holds
  exactly when rows lie beyond the current page.
\<close>

lemma has_more_without_search:
  assumes r: "get_invoices fw sd ed sp pg ps search = Inr r"
    and nosearch: "\<not> truthy fw search"
    and rows: "get_all fw (invoice_query (invoice_filters fw sd ed sp)
                 ((page r - 1) * page_size r) (page_size r))
               = take (nat (page_size r)) (drop (nat ((page r - 1) * page_size r)) matching)"
    and count: "db_count fw ''Invoice Form'' (invoice_filters fw sd ed sp) = int (length matching)"
  shows "has_more r \<longleftrightarrow> (page r - 1) * page_size r + page_size r < int (length matching)"
proof -
  note g = get_invoices_Inr [OF r]
  define s where "s = nat ((page r - 1) * page_size r)"
  define k where "k = nat (page_size r)"
  define n where "n = length matching"
  have p: "1 \<le> page r" "1 \<le> page_size r" using g(2,3) by simp_all
  then have "0 \<le> (page r - 1) * page_size r" by simp
  then have s: "(page r - 1) * page_size r = int s" by (simp add: s_def)
  have k: "page_size r = int k" using p by (simp add: k_def)
  have "shape_invoices fw (take k (drop s matching)) = Inr (invoices r)"
    using g(4) nosearch rows unfolding g(2,3) [symmetric] s_def k_def
    by (simp add: search_rows_def)
  from shape_invoices_length [OF this] have len: "length (invoices r) = min k (n - s)"
    by (simp add: n_def)
  have "has_more r \<longleftrightarrow> int s + int (min k (n - s)) < int n"
    using g(6) count unfolding g(2,3) [symmetric] g(5) s len n_def by simp
  also have "\<dots> \<longleftrightarrow> int s + int k < int n"
    by (auto simp: min_def)
  finally show ?thesis unfolding s [symmetric] k [symmetric] n_def .
qed

text \<open>
  Claim C1. With a search string the flag is computed from the number of rows left
  after the in-memory filter. The table has three invoices; page 1 with a page size of
  20 fetches all three, and the search for \<open>alpha\<close> keeps one. No row lies beyond
  the page, and the handler reports \<open>has_more\<close>, because 0 + 1 is less than the
  count 3.
\<close>

theorem get_invoices_has_more_after_search:
  "map_sum id (\<lambda>r. (length (invoices r), page r, page_size r, total_count r, has_more r))
     (get_invoices demo_env PNone PNone PNone (PInt 1) (PInt 20) (PStr ''alpha'')) =
     Inr (1, 1, 20, 3, True) \<and>
   length (get_all demo_env (invoice_query [] 0 20)) = 3 \<and>
   db_count demo_env ''Invoice Form'' [] = 3"
  by (simp add: get_invoices_def demo_env_def demo_cint_def demo_cstr_def invoice_filters_def
        invoice_query_def demo_get_all_def demo_invoice_rows_def search_rows_def dget_def
        py_or_def py_strip_def py_isspace_def py_lower_def py_lower_char_def Let_def)

end
